(* ===== verification/Prelude.thy ===== *)
theory Prelude
  imports Complex_Main "HOL-Library.Word"
begin

text \<open>
  Shared vocabulary of the raycaster development: the C conversions the program
  relies on (float to int truncates toward zero, \<open>int / int\<close> truncates toward zero,
  \<open>std::vector::operator[]\<close> reads unchecked) and the lemmas about them that the
  component theories use. Floats are modelled as \<open>real\<close> (exact arithmetic, see the
  header of \<open>Spec2Isabelle\<close>); the \<open>unsigned int\<close> texture sizes are \<open>32 word\<close>.
\<close>

named_theorems grid_simps "evaluation rules for the grid, its constants and its cells"

type_synonym u32 = "32 word"

text \<open>C's conversion \<open>(int) f\<close> of a float: rounding toward zero.\<close>

definition c_trunc :: "real \<Rightarrow> int" where
  "c_trunc x = (if 0 \<le> x then \<lfloor>x\<rfloor> else \<lceil>x\<rceil>)"

text \<open>C's \<open>a / b\<close> on \<open>int\<close>: the quotient rounded toward zero.\<close>

definition c_div :: "int \<Rightarrow> int \<Rightarrow> int" where
  "c_div a b = sgn a * sgn b * (\<bar>a\<bar> div \<bar>b\<bar>)"

text \<open>\<open>v[i]\<close> on a \<open>std::vector\<close> or an array: an out-of-range read is undefined
  behaviour, modelled as \<open>None\<close>.\<close>

definition nth_opt :: "'a list \<Rightarrow> nat \<Rightarrow> 'a option" where
  "nth_opt xs i = (if i < length xs then Some (xs ! i) else None)"

subsection \<open>Truncation toward zero\<close>

lemma c_trunc_nonneg [simp]: "0 \<le> x \<Longrightarrow> c_trunc x = \<lfloor>x\<rfloor>"
  by (simp add: c_trunc_def)

lemma c_trunc_neg: "x < 0 \<Longrightarrow> c_trunc x = \<lceil>x\<rceil>"
  by (simp add: c_trunc_def)

lemma c_trunc_of_int [simp]: "c_trunc (of_int n) = n"
  by (simp add: c_trunc_def)

lemma c_trunc_nonneg_iff: "0 \<le> c_trunc x \<longleftrightarrow> -1 < x"
  by (simp add: c_trunc_def)

lemma c_trunc_nonpos: "x < 0 \<Longrightarrow> c_trunc x \<le> 0"
  by (simp add: c_trunc_def)

lemma c_trunc_mono: "x \<le> y \<Longrightarrow> c_trunc x \<le> c_trunc y"
proof (cases "0 \<le> x")
  case True
  then show "x \<le> y \<Longrightarrow> ?thesis" by (simp add: floor_mono)
next
  case False
  show "x \<le> y \<Longrightarrow> ?thesis"
  proof (cases "0 \<le> y")
    case True
    then have "0 \<le> c_trunc y" by (simp add: c_trunc_nonneg_iff)
    moreover have "c_trunc x \<le> 0" using False by (simp add: c_trunc_nonpos)
    ultimately show ?thesis by linarith
  next
    case False
    with \<open>\<not> 0 \<le> x\<close> show "x \<le> y \<Longrightarrow> ?thesis" by (simp add: c_trunc_def ceiling_mono)
  qed
qed

lemma c_trunc_ge_iff: "1 \<le> n \<Longrightarrow> n \<le> c_trunc x \<longleftrightarrow> of_int n \<le> x"
proof (cases "0 \<le> x")
  case True
  then show "1 \<le> n \<Longrightarrow> ?thesis" by (simp add: le_floor_iff)
next
  case False
  then have "c_trunc x \<le> 0" by (simp add: c_trunc_nonpos)
  with False show "1 \<le> n \<Longrightarrow> ?thesis" by auto
qed

lemma c_trunc_less_iff: "1 \<le> n \<Longrightarrow> c_trunc x < n \<longleftrightarrow> x < of_int n"
  using c_trunc_ge_iff [of n x] by linarith

lemma c_trunc_minus [grid_simps]: "c_trunc (- x) = - c_trunc x"
  by (simp add: c_trunc_def ceiling_minus floor_minus)

lemma c_trunc_le_self: "0 \<le> x \<Longrightarrow> of_int (c_trunc x) \<le> x"
  by simp

lemma c_trunc_gt_self: "0 \<le> x \<Longrightarrow> x < of_int (c_trunc x) + 1"
  by simp

subsection \<open>Truncating division and unchecked reads\<close>

lemma c_div_nonneg [simp]: "0 \<le> a \<Longrightarrow> 0 < b \<Longrightarrow> c_div a b = a div b"
  by (cases "a = 0") (auto simp: c_div_def)

lemma nth_opt_Some_iff: "nth_opt xs i = Some v \<longleftrightarrow> i < length xs \<and> xs ! i = v"
  by (auto simp: nth_opt_def)

lemma nth_opt_in_range [simp]: "i < length xs \<Longrightarrow> nth_opt xs i = Some (xs ! i)"
  by (simp add: nth_opt_def)

subsection \<open>Searching an index range, collecting results\<close>

text \<open>\<open>find\<close> over \<open>[a..<b]\<close> is the first index of the range with the property: the
  form in which a loop that stops at the first hit is specified.\<close>

lemma find_upt_Some_iff:
  "find P [a..<b] = Some k \<longleftrightarrow> a \<le> k \<and> k < b \<and> P k \<and> (\<forall>j. a \<le> j \<longrightarrow> j < k \<longrightarrow> \<not> P j)"
proof
  assume "find P [a..<b] = Some k"
  then obtain i where "i < b - a" "P (a + i)" "k = a + i" "\<forall>j<i. \<not> P (a + j)"
    by (auto simp: find_Some_iff)
  then show "a \<le> k \<and> k < b \<and> P k \<and> (\<forall>j. a \<le> j \<longrightarrow> j < k \<longrightarrow> \<not> P j)"
    by (metis add_diff_inverse_nat add_less_cancel_left le_add1 less_diff_conv not_less add.commute)
next
  assume r: "a \<le> k \<and> k < b \<and> P k \<and> (\<forall>j. a \<le> j \<longrightarrow> j < k \<longrightarrow> \<not> P j)"
  then have "k - a < length [a..<b] \<and> P ([a..<b] ! (k - a)) \<and> k = [a..<b] ! (k - a) \<and>
      (\<forall>j<k - a. \<not> P ([a..<b] ! j))"
    by auto
  then show "find P [a..<b] = Some k"
    unfolding find_Some_iff by blast
qed

lemma find_upt_None_iff:
  "find P [a..<b] = None \<longleftrightarrow> (\<forall>j. a \<le> j \<longrightarrow> j < b \<longrightarrow> \<not> P j)"
  by (auto simp: find_None_iff)

lemma those_map_Some:
  "(\<And>x. x \<in> set xs \<Longrightarrow> f x = Some (g x)) \<Longrightarrow> those (map f xs) = Some (map g xs)"
  by (induction xs) auto

lemma those_map_not_None:
  "(\<And>x. x \<in> set xs \<Longrightarrow> f x \<noteq> None) \<Longrightarrow> those (map f xs) \<noteq> None"
  by (induction xs) (auto split: option.splits)

subsection \<open>32-bit unsigned values\<close>

text \<open>An \<open>unsigned int\<close> below \<open>2^31\<close> keeps its value when stored into an \<open>int\<close>,
  and a non-negative \<open>int\<close> below an \<open>unsigned int\<close> keeps its value when converted
  to \<open>unsigned\<close>.\<close>

lemma sint_u32_small: "uint (w :: u32) < 2 ^ 31 \<Longrightarrow> sint w = uint w"
proof -
  assume "uint w < 2 ^ 31"
  moreover have "- (2 ^ 31) \<le> uint w" by (rule order_trans [OF _ uint_ge_0]) simp
  ultimately have "signed_take_bit 31 (uint w) = uint w"
    by (rule_tac signed_take_bit_int_eq_self) simp_all
  then show ?thesis by (simp add: sint_uint)
qed

lemma uint_word_of_int_small: "0 \<le> t \<Longrightarrow> t < uint (w :: u32) \<Longrightarrow> uint (word_of_int t :: u32) = t"
proof -
  assume "0 \<le> t" "t < uint w"
  moreover have "uint w < 2 ^ 32" using uint_lt2p [of w] by simp
  ultimately show ?thesis by (simp add: uint_word_of_int)
qed

subsection \<open>Squares of bounded reals\<close>

lemma sq_less_of_abs_less:
  fixes u :: real
  assumes "-b < u" "u < b"
  shows "u\<^sup>2 < b\<^sup>2"
proof -
  have "\<bar>u\<bar> < b" using assms by (simp add: abs_less_iff)
  then have "\<bar>u\<bar>\<^sup>2 < b\<^sup>2" by (rule power_strict_mono) simp_all
  then show ?thesis by simp
qed

lemma unit_abs_le:
  fixes rx ry :: real
  assumes "rx\<^sup>2 + ry\<^sup>2 = 1"
  shows "\<bar>rx\<bar> \<le> 1" "\<bar>ry\<bar> \<le> 1"
proof -
  have "rx\<^sup>2 \<le> 1" "ry\<^sup>2 \<le> 1" using assms zero_le_power2 [of rx] zero_le_power2 [of ry] by linarith+
  then show "\<bar>rx\<bar> \<le> 1" "\<bar>ry\<bar> \<le> 1" by (simp_all add: abs_square_le_1)
qed

end
