(* ===== verification/World.thy ===== *)
theory World
  imports Prelude
begin

text \<open>
  The program's global data (\<open>src/src/main.cpp\<close>, lines 5--30): the 8\<open>\<times>\<close>8 grid
  \<open>worldMap\<close>, indexed \<open>worldMap[x][y]\<close>, the player's initial pose and the fixed
  render constants. A read \<open>worldMap[x][y]\<close> is \<open>worldMap_at x y\<close>; outside the
  array it is undefined behaviour in C, here \<open>None\<close>. The lemmas show the shape of
  the grid: every border cell is a wall, so every empty cell is an interior cell.
\<close>

definition mapWidth :: int where
  "mapWidth = 8"

definition mapHeight :: int where
  "mapHeight = 8"

definition worldMap :: "int list list" where
  "worldMap =
    [[1, 1, 1, 1, 1, 1, 1, 1],
     [1, 0, 0, 0, 0, 0, 0, 1],
     [1, 0, 0, 0, 0, 0, 0, 1],
     [1, 0, 0, 0, 1, 0, 0, 1],
     [1, 0, 0, 0, 1, 0, 0, 1],
     [1, 0, 1, 0, 0, 0, 0, 1],
     [1, 0, 1, 0, 0, 0, 0, 1],
     [1, 1, 1, 1, 1, 1, 1, 1]]"

definition playerX0 :: real where
  "playerX0 = 2"

definition playerY0 :: real where
  "playerY0 = 2"

definition playerAngle0 :: real where
  "playerAngle0 = 0"

definition fov :: real where
  "fov = 3.14159 / 4"

definition moveSpeed :: real where
  "moveSpeed = 0.05"

definition rotationSpeed :: real where
  "rotationSpeed = 0.007"

definition maxDepth :: real where
  "maxDepth = 16"

definition screenWidth :: int where
  "screenWidth = 800"

definition screenHeight :: int where
  "screenHeight = 400"

text \<open>The number of marching steps of 0.1 left before \<open>maxDepth\<close>: the measure that
  makes the ray caster's loop terminate.\<close>

definition steps_left :: "real \<Rightarrow> nat" where
  "steps_left d = nat \<lceil>(maxDepth - d) * 10\<rceil>"

text \<open>A cell index the array \<open>int worldMap[mapWidth][mapHeight]\<close> holds.\<close>

definition in_map :: "int \<Rightarrow> int \<Rightarrow> bool" where
  "in_map x y \<longleftrightarrow> 0 \<le> x \<and> x < mapWidth \<and> 0 \<le> y \<and> y < mapHeight"

definition worldMap_at :: "int \<Rightarrow> int \<Rightarrow> int option" where
  "worldMap_at x y = (if in_map x y then Some (worldMap ! nat x ! nat y) else None)"

subsection \<open>Shape of the grid\<close>

lemmas world_consts [grid_simps] = mapWidth_def mapHeight_def maxDepth_def
  screenWidth_def screenHeight_def moveSpeed_def fov_def

lemmas worldMap_eval [grid_simps] = worldMap_def in_map_def worldMap_at_def


lemma worldMap_at_None_iff: "worldMap_at x y = None \<longleftrightarrow> \<not> in_map x y"
  by (simp add: worldMap_at_def)

lemma in_map_nat:
  "in_map x y \<Longrightarrow> nat x < length worldMap \<and> nat y < 8"
  by (auto simp: in_map_def mapWidth_def mapHeight_def worldMap_def)

text \<open>The grid row by row: the first and last rows are walls, every row starts
  and ends with a wall, every cell is 0 or 1.\<close>

lemma worldMap_rows:
  "set (worldMap ! 0) = {1}" "set (worldMap ! 7) = {1}"
  "\<forall>row \<in> set worldMap. length row = 8 \<and> row ! 0 = 1 \<and> row ! 7 = 1 \<and> set row \<subseteq> {0, 1}"
  by (simp_all add: worldMap_def)

lemma worldMap_at_values:
  "worldMap_at x y = Some c \<Longrightarrow> c = 0 \<or> c = 1"
proof -
  assume a: "worldMap_at x y = Some c"
  then have m: "in_map x y" and c: "c = worldMap ! nat x ! nat y"
    by (auto simp: worldMap_at_def split: if_splits)
  from m have "worldMap ! nat x \<in> set worldMap" and "nat y < 8"
    by (simp_all add: in_map_nat)
  with worldMap_rows(3) c show ?thesis by force
qed

lemma worldMap_border:
  "in_map x y \<Longrightarrow> x = 0 \<or> x = mapWidth - 1 \<or> y = 0 \<or> y = mapHeight - 1 \<Longrightarrow>
   worldMap_at x y = Some 1"
proof -
  assume m: "in_map x y" and b: "x = 0 \<or> x = mapWidth - 1 \<or> y = 0 \<or> y = mapHeight - 1"
  from m have row: "worldMap ! nat x \<in> set worldMap" and y8: "nat y < 8"
    by (simp_all add: in_map_nat)
  have x0: "worldMap ! nat x ! nat y \<in> set (worldMap ! nat x)"
    using row y8 worldMap_rows(3) by simp
  from b y8 row x0 worldMap_rows have "worldMap ! nat x ! nat y = 1"
    by (auto simp: mapWidth_def mapHeight_def)
  with m show ?thesis by (simp add: worldMap_at_def)
qed

text \<open>An empty cell lies strictly inside the border.\<close>

lemma worldMap_empty_interior:
  assumes "worldMap_at x y = Some 0"
  shows "1 \<le> x \<and> x \<le> mapWidth - 2 \<and> 1 \<le> y \<and> y \<le> mapHeight - 2"
proof -
  from assms have m: "in_map x y" by (auto simp: worldMap_at_def split: if_splits)
  have "\<not> (x = 0 \<or> x = mapWidth - 1 \<or> y = 0 \<or> y = mapHeight - 1)"
    using worldMap_border [OF m] assms by auto
  with m show ?thesis by (auto simp: in_map_def)
qed

subsection \<open>Positions in empty cells\<close>

text \<open>A point whose cell (by truncation) is empty lies in \<open>[1, 7)\<close> on both axes, and a
  point within 0.1 of such a coordinate truncates to a cell index of the array.\<close>

lemma empty_cell_interior:
  assumes "worldMap_at (c_trunc x) (c_trunc y) = Some 0"
  shows "1 \<le> x \<and> x < 7 \<and> 1 \<le> y \<and> y < 7"
proof -
  from worldMap_empty_interior [OF assms]
  have "1 \<le> c_trunc x" "c_trunc x < 7" "1 \<le> c_trunc y" "c_trunc y < 7"
    by (simp_all add: mapWidth_def mapHeight_def)
  then show ?thesis by (simp add: c_trunc_ge_iff c_trunc_less_iff)
qed

lemma near_cell_in_range:
  assumes "1 \<le> x" "x < 7" "\<bar>nx - x\<bar> \<le> 0.1"
  shows "0 \<le> c_trunc nx \<and> c_trunc nx < 8"
proof -
  from assms have "-1 < nx" "nx < 8" unfolding abs_le_iff by linarith+
  then show ?thesis by (simp add: c_trunc_nonneg_iff c_trunc_less_iff)
qed

lemma worldMap_at_in_range:
  "0 \<le> i \<Longrightarrow> i < 8 \<Longrightarrow> 0 \<le> j \<Longrightarrow> j < 8 \<Longrightarrow> \<exists>c. worldMap_at i j = Some c"
  by (simp add: worldMap_at_def in_map_def mapWidth_def mapHeight_def)

subsection \<open>The marching budget\<close>

lemma steps_left_decrease: "d < maxDepth \<Longrightarrow> steps_left (d + 0.1) < steps_left d"
proof -
  assume "d < maxDepth"
  then have pos: "0 < (maxDepth - d) * 10" by simp
  have "(maxDepth - (d + 0.1)) * 10 = (maxDepth - d) * 10 - 1" by (simp add: algebra_simps)
  then have "\<lceil>(maxDepth - (d + 0.1)) * 10\<rceil> = \<lceil>(maxDepth - d) * 10\<rceil> - 1"
    by (simp only: ceiling_diff_one)
  moreover from pos have "1 \<le> \<lceil>(maxDepth - d) * 10\<rceil>" by (simp add: zero_less_ceiling)
  ultimately show ?thesis by (simp add: steps_left_def)
qed

end
