(* ===== verification/RayCaster.thy ===== *)
theory RayCaster
  imports World
begin

text \<open>
  The ray caster, \<open>castRays\<close> (\<open>src/src/main.cpp\<close>, lines 112--147). One ray per
  screen column; each ray marches from the player in steps of 0.1 until the sampled cell
  is a wall (distance kept) or lies outside the grid (distance set to \<open>maxDepth\<close>), or
  the distance reaches \<open>maxDepth\<close>. The inner \<open>while\<close> loop is \<open>march\<close>, with the
  loop state \<open>(distanceToWall, hitWall)\<close> as its last two arguments. The cell read
  \<open>worldMap[testX][testY]\<close> is \<open>worldMap_at\<close>, \<open>None\<close> outside the array, so that
  the model would show an unchecked read as a \<open>None\<close> result.

  \<open>rayDistance\<close> is the reference specification: the distance of the first of the
  samples \<open>k = 1 .. 160\<close> (at distance \<open>k / 10\<close>) whose cell blocks the ray.
\<close>

function march :: "real \<Rightarrow> real \<Rightarrow> real \<Rightarrow> real \<Rightarrow> real \<Rightarrow> bool \<Rightarrow> real option" where
  "march playerX playerY rayX rayY distanceToWall hitWall =
     (if \<not> hitWall \<and> distanceToWall < maxDepth then
        (let d = distanceToWall + 0.1;
             testX = c_trunc (playerX + rayX * d);
             testY = c_trunc (playerY + rayY * d)
         in if testX < 0 \<or> testX \<ge> mapWidth \<or> testY < 0 \<or> testY \<ge> mapHeight
            then march playerX playerY rayX rayY maxDepth True
            else (case worldMap_at testX testY of
                    None \<Rightarrow> None
                  | Some c \<Rightarrow>
                      if c = 1 then march playerX playerY rayX rayY d True
                      else march playerX playerY rayX rayY d False))
      else Some distanceToWall)"
  by pat_completeness auto

text \<open>Termination: a hit ends the loop, and otherwise the number of steps left before
  \<open>maxDepth\<close>, \<open>steps_left\<close>, drops by one.\<close>

termination
  by (relation "measure (\<lambda>(px, py, rx, ry, d, hit). if hit then 0 else Suc (steps_left d))")
     (auto simp: steps_left_decrease)

declare march.simps [simp del]

definition rayAngle :: "real \<Rightarrow> int \<Rightarrow> real" where
  "rayAngle playerAngle x = (playerAngle - fov / 2) + (real_of_int x / real_of_int screenWidth) * fov"

definition castRays :: "real \<Rightarrow> real \<Rightarrow> real \<Rightarrow> real list option" where
  "castRays playerX playerY playerAngle =
     those (map (\<lambda>x. march playerX playerY (cos (rayAngle playerAngle x)) (sin (rayAngle playerAngle x)) 0 False)
                [0..screenWidth - 1])"

subsection \<open>Reference specification\<close>

definition probe :: "real \<Rightarrow> real \<Rightarrow> real \<Rightarrow> real \<Rightarrow> nat \<Rightarrow> int option" where
  "probe px py rx ry k =
     worldMap_at (c_trunc (px + rx * (real k / 10))) (c_trunc (py + ry * (real k / 10)))"

definition blocks :: "int option \<Rightarrow> bool" where
  "blocks c \<longleftrightarrow> c = None \<or> c = Some 1"

definition rayFrom :: "real \<Rightarrow> real \<Rightarrow> real \<Rightarrow> real \<Rightarrow> nat \<Rightarrow> real" where
  "rayFrom px py rx ry k =
     (case find (\<lambda>j. blocks (probe px py rx ry j)) [Suc k..<161] of
        None \<Rightarrow> maxDepth
      | Some j \<Rightarrow> if probe px py rx ry j = None then maxDepth else real j / 10)"

definition rayDistance :: "real \<Rightarrow> real \<Rightarrow> real \<Rightarrow> real \<Rightarrow> real" where
  "rayDistance px py rx ry = rayFrom px py rx ry 0"

subsection \<open>The loop against the reference\<close>

lemma march_hit: "march px py rx ry d True = Some d"
  by (simp add: march.simps)

lemma out_of_grid_iff: "(x < 0 \<or> x \<ge> mapWidth \<or> y < 0 \<or> y \<ge> mapHeight) \<longleftrightarrow> worldMap_at x y = None"
  by (auto simp: worldMap_at_def in_map_def)

lemma sample_dist: "real k / 10 + 0.1 = real (Suc k) / 10"
  by simp

lemma march_step:
  assumes "k < 160"
  shows "march px py rx ry (real k / 10) False =
    (case probe px py rx ry (Suc k) of
       None \<Rightarrow> Some maxDepth
     | Some c \<Rightarrow> if c = 1 then Some (real (Suc k) / 10) else march px py rx ry (real (Suc k) / 10) False)"
proof -
  from assms have "real k / 10 < maxDepth" by (simp add: maxDepth_def)
  then show ?thesis
    by (simp add: march.simps [of px py rx ry "real k / 10"] Let_def sample_dist out_of_grid_iff
        probe_def march_hit split: option.split)
qed

lemma rayFrom_step:
  assumes "k < 160"
  shows "rayFrom px py rx ry k =
    (case probe px py rx ry (Suc k) of
       None \<Rightarrow> maxDepth
     | Some c \<Rightarrow> if c = 1 then real (Suc k) / 10 else rayFrom px py rx ry (Suc k))"
proof -
  from assms have "[Suc k..<161] = Suc k # [Suc (Suc k)..<161]" by (simp add: upt_rec)
  then show ?thesis
    by (simp add: rayFrom_def blocks_def split: option.split)
qed

lemma march_from:
  "k \<le> 160 \<Longrightarrow> march px py rx ry (real k / 10) False = Some (rayFrom px py rx ry k)"
proof (induction "160 - k" arbitrary: k)
  case 0
  then have "k = 160" by simp
  then show ?case by (simp add: march.simps rayFrom_def maxDepth_def)
next
  case (Suc n)
  then have k: "k < 160" by simp
  have IH: "march px py rx ry (real (Suc k) / 10) False = Some (rayFrom px py rx ry (Suc k))"
    using Suc.hyps(1) [of "Suc k"] Suc.hyps(2) by simp
  show ?case
    using IH by (simp add: march_step [OF k] rayFrom_step [OF k] split: option.split)
qed

text \<open>C1: the marching loop of \<open>castRays\<close>, started as the code starts it
  (\<open>distanceToWall = 0\<close>, \<open>hitWall = false\<close>), always returns, never reads
  \<open>worldMap\<close> out of range, and returns the reference distance \<open>rayDistance\<close>: the
  distance of the first sample that leaves the grid (then \<open>maxDepth\<close>) or hits a wall.\<close>

theorem march_refines_rayDistance:
  "march playerX playerY rayX rayY 0 False = Some (rayDistance playerX playerY rayX rayY)"
  using march_from [of 0 playerX playerY rayX rayY] by (simp add: rayDistance_def)

subsection \<open>What the reference says\<close>

lemma march_start: "march px py rx ry 0 False = Some (rayDistance px py rx ry)"
  using march_from [of 0 px py rx ry] by (simp add: rayDistance_def)

lemma rayDistance_find:
  "rayDistance px py rx ry =
     (case find (\<lambda>j. blocks (probe px py rx ry j)) [1..<161] of
        None \<Rightarrow> maxDepth
      | Some j \<Rightarrow> if probe px py rx ry j = None then maxDepth else real j / 10)"
  by (simp add: rayDistance_def rayFrom_def)

lemma probe_not_blocks: "\<not> blocks (probe px py rx ry j) \<Longrightarrow> probe px py rx ry j = Some 0"
  using worldMap_at_values [of _ _ ] by (cases "probe px py rx ry j") (auto simp: blocks_def probe_def)

lemma rayDistance_bounds: "0.1 \<le> rayDistance px py rx ry \<and> rayDistance px py rx ry \<le> maxDepth"
proof (cases "find (\<lambda>j. blocks (probe px py rx ry j)) [1..<161]")
  case None
  then show ?thesis by (simp add: rayDistance_find maxDepth_def)
next
  case (Some j)
  then have "1 \<le> j" "j < 161" by (simp_all add: find_upt_Some_iff)
  with Some show ?thesis by (simp add: rayDistance_find maxDepth_def)
qed

lemma probe_axis_x: "probe px py 1 0 k = worldMap_at (c_trunc (px + real k / 10)) (c_trunc py)"
  by (simp add: probe_def)

lemma castRays_eq:
  "castRays px py pa =
     Some (map (\<lambda>x. rayDistance px py (cos (rayAngle pa x)) (sin (rayAngle pa x))) [0..screenWidth - 1])"
  unfolding castRays_def by (rule those_map_Some) (simp add: march_start)

lemma castRays_nth:
  assumes "castRays px py pa = Some ds" "i < length ds"
  shows "length ds = nat screenWidth \<and>
         ds ! i = rayDistance px py (cos (rayAngle pa (int i))) (sin (rayAngle pa (int i)))"
  using assms by (auto simp: castRays_eq screenWidth_def)

lemma castRays_Some_length:
  "\<exists>ds. castRays px py pa = Some ds \<and> length ds = nat screenWidth"
  by (simp add: castRays_eq screenWidth_def)

lemma march_2_2_east: "march 2 2 1 0 0 False = Some 3"
  by (simp add: march.simps grid_simps)

lemma rayDistance_hit:
  assumes "rayDistance px py rx ry < maxDepth"
  shows "\<exists>k. 1 \<le> k \<and> k < 160 \<and> rayDistance px py rx ry = real k / 10 \<and>
             probe px py rx ry k = Some 1 \<and>
             (\<forall>j. 1 \<le> j \<longrightarrow> j < k \<longrightarrow> probe px py rx ry j = Some 0)"
proof (cases "find (\<lambda>j. blocks (probe px py rx ry j)) [1..<161]")
  case None
  with assms show ?thesis by (simp add: rayDistance_find)
next
  case (Some k)
  then have k: "1 \<le> k" "k < 161" "blocks (probe px py rx ry k)"
    and before: "\<forall>j. 1 \<le> j \<longrightarrow> j < k \<longrightarrow> \<not> blocks (probe px py rx ry j)"
    by (simp_all add: find_upt_Some_iff)
  have inside: "probe px py rx ry k \<noteq> None"
  proof
    assume "probe px py rx ry k = None"
    with Some have "rayDistance px py rx ry = maxDepth" by (simp add: rayDistance_find)
    with assms show False by simp
  qed
  with k have wall: "probe px py rx ry k = Some 1" by (simp add: blocks_def)
  with Some have d: "rayDistance px py rx ry = real k / 10" by (simp add: rayDistance_find)
  with assms have "k < 160" by (simp add: maxDepth_def)
  with k wall d before probe_not_blocks show ?thesis by blast
qed

lemma rayDistance_exit:
  assumes "1 \<le> k" "k \<le> 160" "probe px py rx ry k = None"
    "\<forall>j. 1 \<le> j \<longrightarrow> j < k \<longrightarrow> probe px py rx ry j = Some 0"
  shows "rayDistance px py rx ry = maxDepth"
proof -
  have "find (\<lambda>j. blocks (probe px py rx ry j)) [1..<161] = Some k"
    using assms by (simp add: find_upt_Some_iff blocks_def)
  with assms(3) show ?thesis by (simp add: rayDistance_find)
qed

lemma rayDistance_axis_x:
  assumes px: "0 \<le> px" and behind: "c_trunc px < c"
    and wall: "worldMap_at c (c_trunc py) = Some 1"
    and clear: "\<forall>i. c_trunc px \<le> i \<longrightarrow> i < c \<longrightarrow> worldMap_at i (c_trunc py) = Some 0"
  shows "of_int c - px \<le> rayDistance px py 1 0 \<and> rayDistance px py 1 0 < of_int c - px + 0.1"
proof -
  define x where "x = (of_int c - px) * 10"
  define k where "k = nat \<lceil>x\<rceil>"
  from px behind have "px < of_int c" by (simp add: floor_less_iff)
  then have x0: "0 < x" by (simp add: x_def)
  from wall have "c < 8" by (auto simp: worldMap_at_def in_map_def mapWidth_def split: if_splits)
  with px have "x \<le> 80" by (simp add: x_def)
  then have "\<lceil>x\<rceil> \<le> 80" by (simp add: ceiling_le_iff)
  moreover from x0 have c1: "1 \<le> \<lceil>x\<rceil>" by simp
  ultimately have k1: "1 \<le> k" and k160: "k \<le> 160" and kx: "real k = of_int \<lceil>x\<rceil>"
    by (simp_all add: k_def le_nat_iff)
  have lo: "x \<le> real k" and hi: "real k < x + 1"
    using kx ceiling_correct [of x] by linarith+
  have "c_trunc (px + real k / 10) = c"
  proof -
    from lo hi have "of_int c \<le> px + real k / 10" "px + real k / 10 < of_int c + 1"
      by (simp_all add: x_def field_simps)
    with px show ?thesis by (simp add: floor_eq_iff)
  qed
  with wall have hit: "probe px py 1 0 k = Some 1" by (simp add: probe_axis_x)
  have before: "probe px py 1 0 j = Some 0" if "1 \<le> j" "j < k" for j
  proof -
    from that have "int j < \<lceil>x\<rceil>" by (simp add: k_def)
    then have "real j < x" by (simp add: less_ceiling_iff)
    then have "px + real j / 10 < of_int c" by (simp add: x_def field_simps)
    then have "c_trunc (px + real j / 10) < c"
      using px by (simp add: floor_less_iff)
    moreover have "c_trunc px \<le> c_trunc (px + real j / 10)"
      by (rule c_trunc_mono) simp
    ultimately show ?thesis using clear by (simp add: probe_axis_x)
  qed
  have "find (\<lambda>j. blocks (probe px py 1 0 j)) [1..<161] = Some k"
    using k1 k160 hit before by (simp add: find_upt_Some_iff blocks_def)
  with hit have "rayDistance px py 1 0 = real k / 10" by (simp add: rayDistance_find)
  with lo hi show ?thesis by (simp add: x_def field_simps)
qed

lemma clear_row_2_east:
  "\<forall>i. c_trunc 2 \<le> i \<longrightarrow> i < 5 \<longrightarrow> worldMap_at i (c_trunc 2) = Some 0"
proof (intro allI impI)
  fix i :: int assume "c_trunc 2 \<le> i" "i < 5"
  then have "2 \<le> i" "i < 5" by simp_all
  then have "i = 2 \<or> i = 3 \<or> i = 4" by arith
  then show "worldMap_at i (c_trunc 2) = Some 0" by (auto simp: grid_simps)
qed

subsection \<open>Rays from an empty cell\<close>

text \<open>Consecutive samples are at most 0.1 apart on each axis, so the sample after an
  empty cell (which lies in \<open>[1, 7)\<close>) is inside the array; and a unit ray cannot
  stay in the interior box for 8.5 units, its diagonal being \<open>6 * sqrt 2 < 8.5\<close>.\<close>

lemma sample_pos_step:
  assumes "\<bar>rx\<bar> \<le> 1"
  shows "\<bar>(p + rx * (real (Suc j) / 10)) - (p + rx * (real j / 10))\<bar> \<le> 0.1"
proof -
  have "real (Suc j) / 10 = real j / 10 + 1 / 10" by (simp add: add_divide_distrib)
  then have e: "(p + rx * (real (Suc j) / 10)) - (p + rx * (real j / 10)) = rx / 10"
    by (simp only: distrib_left)
  show ?thesis unfolding e using assms by (simp add: abs_divide)
qed

lemma probe_next_in_grid:
  assumes "worldMap_at (c_trunc (px + rx * (real j / 10))) (c_trunc (py + ry * (real j / 10))) = Some 0"
    "\<bar>rx\<bar> \<le> 1" "\<bar>ry\<bar> \<le> 1"
  shows "probe px py rx ry (Suc j) \<noteq> None"
proof -
  from empty_cell_interior [OF assms(1)]
  have b: "1 \<le> px + rx * (real j / 10)" "px + rx * (real j / 10) < 7"
          "1 \<le> py + ry * (real j / 10)" "py + ry * (real j / 10) < 7" by simp_all
  from near_cell_in_range [OF b(1,2) sample_pos_step [OF assms(2)]]
       near_cell_in_range [OF b(3,4) sample_pos_step [OF assms(3)]]
  obtain c where "worldMap_at (c_trunc (px + rx * (real (Suc j) / 10))) (c_trunc (py + ry * (real (Suc j) / 10))) = Some c"
    using worldMap_at_in_range by blast
  then show ?thesis by (simp add: probe_def)
qed

lemma probe_zero: "probe px py rx ry 0 = worldMap_at (c_trunc px) (c_trunc py)"
  by (simp add: probe_def)

lemma first_block_is_wall:
  assumes start: "worldMap_at (c_trunc px) (c_trunc py) = Some 0"
    and r: "\<bar>rx\<bar> \<le> 1" "\<bar>ry\<bar> \<le> 1"
    and k: "1 \<le> k" and before: "\<forall>j. 1 \<le> j \<longrightarrow> j < k \<longrightarrow> probe px py rx ry j = Some 0"
  shows "probe px py rx ry k \<noteq> None"
proof -
  obtain j where kj: "k = Suc j" using k by (cases k) simp_all
  have "probe px py rx ry j = Some 0"
  proof (cases j)
    case 0
    with start show ?thesis by (simp add: probe_zero)
  next
    case (Suc i)
    with before kj show ?thesis by simp
  qed
  then show ?thesis unfolding kj by (intro probe_next_in_grid) (simp_all add: probe_def r)
qed

lemma no_long_clear_ray:
  assumes start: "worldMap_at (c_trunc px) (c_trunc py) = Some 0"
    and unit: "rx\<^sup>2 + ry\<^sup>2 = 1"
    and clear: "probe px py rx ry 85 = Some 0"
  shows False
proof -
  from empty_cell_interior [OF start] have p: "1 \<le> px" "px < 7" "1 \<le> py" "py < 7" by simp_all
  have "worldMap_at (c_trunc (px + rx * 8.5)) (c_trunc (py + ry * 8.5)) = Some 0"
    using clear by (simp add: probe_def)
  from empty_cell_interior [OF this]
  have q: "1 \<le> px + rx * 8.5" "px + rx * 8.5 < 7" "1 \<le> py + ry * 8.5" "py + ry * 8.5 < 7"
    by simp_all
  have "(rx * 8.5)\<^sup>2 < 6\<^sup>2" by (rule sq_less_of_abs_less) (use p q in linarith)+
  moreover have "(ry * 8.5)\<^sup>2 < 6\<^sup>2" by (rule sq_less_of_abs_less) (use p q in linarith)+
  moreover have "(rx * 8.5)\<^sup>2 = rx\<^sup>2 * (289 / 4)" "(ry * 8.5)\<^sup>2 = ry\<^sup>2 * (289 / 4)"
    "(6::real)\<^sup>2 = 36"
    by (simp_all add: power2_eq_square)
  ultimately show False using unit by linarith
qed

lemma rayDistance_from_empty_cell:
  assumes start: "worldMap_at (c_trunc px) (c_trunc py) = Some 0"
    and unit: "rx\<^sup>2 + ry\<^sup>2 = 1"
  shows "\<exists>k. 1 \<le> k \<and> k \<le> 85 \<and> rayDistance px py rx ry = real k / 10 \<and>
             probe px py rx ry k = Some 1"
proof -
  let ?P = "\<lambda>j. blocks (probe px py rx ry j)"
  have "?P 85"
    using no_long_clear_ray [OF start unit] probe_not_blocks [of px py rx ry 85] by blast
  then obtain k where found: "find ?P [1..<161] = Some k"
    by (cases "find ?P [1..<161]") (auto simp: find_upt_None_iff)
  then have k: "1 \<le> k" "k < 161" "?P k" and before: "\<forall>j. 1 \<le> j \<longrightarrow> j < k \<longrightarrow> \<not> ?P j"
    by (simp_all add: find_upt_Some_iff)
  have "k \<le> 85"
  proof (rule ccontr)
    assume "\<not> k \<le> 85"
    with before \<open>?P 85\<close> show False by simp
  qed
  have "\<forall>j. 1 \<le> j \<longrightarrow> j < k \<longrightarrow> probe px py rx ry j = Some 0"
    using before probe_not_blocks by blast
  with first_block_is_wall [OF start unit_abs_le [OF unit] k(1)]
  have "probe px py rx ry k \<noteq> None" by blast
  with k(3) have wall: "probe px py rx ry k = Some 1" by (simp add: blocks_def)
  with found have "rayDistance px py rx ry = real k / 10" by (simp add: rayDistance_find)
  with k(1) \<open>k \<le> 85\<close> wall show ?thesis by blast
qed


subsection \<open>Properties of the ray caster\<close>

text \<open>C2: \<open>castRays\<close> always returns, with exactly one sample per screen column, and
  every sample lies between one marching step (0.1) and \<open>maxDepth\<close>: the first step
  is always taken, so no sample is 0 and the projector's division by it is defined.\<close>

theorem castRays_samples:
  "\<exists>ds. castRays playerX playerY playerAngle = Some ds \<and> length ds = nat screenWidth \<and>
        (\<forall>d \<in> set ds. 0.1 \<le> d \<and> d \<le> maxDepth)"
  using rayDistance_bounds by (auto simp: castRays_eq screenWidth_def)

theorem castRays_samples_witness:
  "\<exists>ds. castRays 2 2 0 = Some ds \<and> length ds = 800 \<and> (\<forall>d \<in> set ds. 0.1 \<le> d \<and> d \<le> 16)"
  using castRays_samples [of 2 2 0] by (simp add: grid_simps)

text \<open>C3: a ray whose loop stops before \<open>maxDepth\<close> stops at the first sample that lies
  in a wall cell, and every sample before it lies in an empty cell inside the grid: the
  march never passes through a wall at its sampling resolution.\<close>

theorem march_stops_at_first_wall:
  assumes "march px py rx ry 0 False = Some d" "d < maxDepth"
  shows "\<exists>k. 1 \<le> k \<and> k < 160 \<and> d = real k / 10 \<and> probe px py rx ry k = Some 1 \<and>
             (\<forall>j. 1 \<le> j \<longrightarrow> j < k \<longrightarrow> probe px py rx ry j = Some 0)"
proof -
  from assms(1) have "d = rayDistance px py rx ry" by (simp add: march_start)
  with assms(2) rayDistance_hit [of px py rx ry] show ?thesis by simp
qed

theorem march_stops_at_first_wall_witness:
  "march 2 2 1 0 0 False = Some 3 \<and> 3 < maxDepth \<and>
   (\<exists>k. 1 \<le> k \<and> k < 160 \<and> (3::real) = real k / 10 \<and> probe 2 2 1 0 k = Some 1 \<and>
        (\<forall>j. 1 \<le> j \<longrightarrow> j < k \<longrightarrow> probe 2 2 1 0 j = Some 0))"
proof -
  have run: "march 2 2 1 0 0 False = Some 3" by (rule march_2_2_east)
  have lt: "3 < maxDepth" by (simp add: maxDepth_def)
  show ?thesis using march_stops_at_first_wall [OF run lt] run lt by blast
qed

text \<open>C4: a ray whose first blocking sample lies outside the grid (no wall cell hit
  before it) makes the loop return exactly \<open>maxDepth\<close>; the bounds test comes before
  the array read.\<close>

theorem march_exit_grid:
  assumes "1 \<le> k" "k \<le> 160" "probe px py rx ry k = None"
    "\<forall>j. 1 \<le> j \<longrightarrow> j < k \<longrightarrow> probe px py rx ry j = Some 0"
  shows "march px py rx ry 0 False = Some maxDepth"
  using rayDistance_exit [OF assms] by (simp add: march_start)

theorem march_exit_grid_witness:
  "probe (-5) 0 1 0 1 = None \<and> march (-5) 0 1 0 0 False = Some maxDepth"
proof -
  have out: "probe (-5) 0 1 0 1 = None" by (simp add: probe_def grid_simps)
  have "march (-5) 0 1 0 0 False = Some maxDepth"
    by (rule march_exit_grid [of 1]) (simp_all add: probe_def grid_simps)
  with out show ?thesis by simp
qed

text \<open>C5: a ray along \<open>+x\<close> from a point \<open>(px, py)\<close> with empty cells up to a wall
  in column \<open>c\<close> returns a distance within one marching step beyond the true distance
  \<open>c - px\<close> to the wall's near face.\<close>

theorem march_axis_accuracy:
  assumes "0 \<le> px" "c_trunc px < c" "worldMap_at c (c_trunc py) = Some 1"
    "\<forall>i. c_trunc px \<le> i \<longrightarrow> i < c \<longrightarrow> worldMap_at i (c_trunc py) = Some 0"
  shows "\<exists>d. march px py 1 0 0 False = Some d \<and> of_int c - px \<le> d \<and> d < of_int c - px + 0.1"
  using rayDistance_axis_x [OF assms] by (simp add: march_start)

theorem march_axis_accuracy_witness:
  "\<exists>d. march 2 2 1 0 0 False = Some d \<and> 3 \<le> d \<and> d < 3.1"
  using march_axis_accuracy [of 2 5 2] clear_row_2_east by (simp add: grid_simps)

text \<open>C24: from any position in an empty cell (the invariant the movement code keeps),
  every ray the program casts, with direction \<open>(cos a, sin a)\<close>, stops at a wall cell
  within 85 samples (8.5 units): it never leaves the grid and never reaches
  \<open>maxDepth\<close>, because the border of \<open>worldMap\<close> is all walls and each sample after
  an empty cell is inside the array.\<close>

theorem march_hits_wall_from_empty_cell:
  assumes "worldMap_at (c_trunc px) (c_trunc py) = Some 0"
  shows "\<exists>k. 1 \<le> k \<and> k \<le> 85 \<and> march px py (cos a) (sin a) 0 False = Some (real k / 10) \<and>
             probe px py (cos a) (sin a) k = Some 1"
  using rayDistance_from_empty_cell [OF assms sin_cos_squared_add2] by (simp add: march_start)

theorem march_hits_wall_from_empty_cell_witness:
  "worldMap_at (c_trunc 2) (c_trunc 2) = Some 0 \<and>
   (\<exists>k. 1 \<le> k \<and> k \<le> 85 \<and> march 2 2 (cos 0) (sin 0) 0 False = Some (real k / 10) \<and>
        probe 2 2 (cos 0) (sin 0) k = Some 1)"
proof -
  have s: "worldMap_at (c_trunc 2) (c_trunc 2) = Some 0" by (simp add: grid_simps)
  show ?thesis using march_hits_wall_from_empty_cell [OF s, of 0] s by blast
qed

end
