(* ===== verification/Projector.thy ===== *)
theory Projector
  imports RayCaster
begin

text \<open>
  The first-person view, \<open>renderPlayerView\<close> (\<open>src/src/main.cpp\<close>, lines 72--110).
  For each column \<open>x\<close> it reads \<open>distances[x]\<close>, draws a vertical wall slice of height
  \<open>wallHeight\<close> centred on the horizon with a grey \<open>shade\<close>, and then, for every row from
  the slice's lower half down to the bottom of the screen, inverse-projects the row to a
  floor point and samples the floor image there. The drawing itself is SFML's; the model
  returns the list of draw commands the code issues, in order, and \<open>None\<close> where the
  code would read \<open>distances\<close> or the image out of range. The texture size is
  \<open>unsigned int\<close>, so the wrap \<open>(int)(floorX * texWidth) % texWidth\<close> is computed on
  32-bit unsigned words (\<open>texCoord\<close>).
\<close>

record 'c image =
  imgWidth :: u32
  imgHeight :: u32
  imgPixel :: "nat \<Rightarrow> nat \<Rightarrow> 'c"

datatype 'c drawCmd =
    DrawSlice int int int int  \<comment> \<open>column, top row, height, grey level\<close>
  | DrawPoint int int 'c       \<comment> \<open>column, row, colour\<close>

definition wallHeight :: "real \<Rightarrow> int" where
  "wallHeight distance = c_trunc (real_of_int screenHeight / distance)"

definition sliceTop :: "int \<Rightarrow> int" where
  "sliceTop wh = c_div screenHeight 2 - c_div wh 2"

definition shade :: "real \<Rightarrow> int" where
  "shade distance = 255 - min 255 (c_trunc (distance * 20))"

definition floorStart :: "int \<Rightarrow> int" where
  "floorStart wh = c_div screenHeight 2 + c_div wh 2"

definition floorDistance :: "int \<Rightarrow> real" where
  "floorDistance y = real_of_int screenHeight / (2 * real_of_int y - real_of_int screenHeight)"

definition floorAngle :: "real \<Rightarrow> int \<Rightarrow> real" where
  "floorAngle playerAngle x = playerAngle + (real_of_int x / real_of_int screenWidth - 0.5) * fov"

text \<open>\<open>(int)(f * tex) % tex\<close> with \<open>tex\<close> unsigned: the \<open>int\<close> operand is converted to
  \<open>unsigned int\<close> (modulo \<open>2^32\<close>), the remainder is unsigned, and it is stored back
  into an \<open>int\<close>.\<close>

definition texCoord :: "real \<Rightarrow> u32 \<Rightarrow> int" where
  "texCoord f tex = sint ((word_of_int (c_trunc (f * real (unat tex))) :: u32) mod tex)"

text \<open>\<open>sf::Image::getPixel(unsigned x, unsigned y)\<close>: the \<open>int\<close> arguments are converted
  to \<open>unsigned\<close>; a pixel outside the image is read out of range.\<close>

definition getPixel :: "'c image \<Rightarrow> int \<Rightarrow> int \<Rightarrow> 'c option" where
  "getPixel img x y =
     (let ux = (word_of_int x :: u32); uy = (word_of_int y :: u32) in
      if ux < imgWidth img \<and> uy < imgHeight img then Some (imgPixel img (unat ux) (unat uy)) else None)"

definition floorPixel :: "'c image \<Rightarrow> real \<Rightarrow> real \<Rightarrow> real \<Rightarrow> int \<Rightarrow> int \<Rightarrow> 'c drawCmd option" where
  "floorPixel img playerX playerY playerAngle x y =
     (let fd = floorDistance y;
          floorX = playerX + cos (floorAngle playerAngle x) * fd;
          floorY = playerY + sin (floorAngle playerAngle x) * fd;
          tx = texCoord floorX (imgWidth img);
          ty = texCoord floorY (imgHeight img)
      in map_option (DrawPoint x y) (getPixel img tx ty))"

definition renderColumn ::
  "'c image \<Rightarrow> real \<Rightarrow> real \<Rightarrow> real \<Rightarrow> real list \<Rightarrow> int \<Rightarrow> 'c drawCmd list option" where
  "renderColumn img playerX playerY playerAngle distances x =
     (case nth_opt distances (nat x) of
        None \<Rightarrow> None
      | Some distance \<Rightarrow>
          (let wh = wallHeight distance
           in map_option (Cons (DrawSlice x (sliceTop wh) wh (shade distance)))
                (those (map (floorPixel img playerX playerY playerAngle x)
                            [floorStart wh..screenHeight - 1]))))"

definition renderPlayerView ::
  "'c image \<Rightarrow> real \<Rightarrow> real \<Rightarrow> real \<Rightarrow> real list \<Rightarrow> 'c drawCmd list option" where
  "renderPlayerView img playerX playerY playerAngle distances =
     map_option concat
       (those (map (renderColumn img playerX playerY playerAngle distances) [0..screenWidth - 1]))"

subsection \<open>Texture coordinates\<close>

lemma texCoord_eq:
  assumes "0 < uint tex" "uint tex < 2 ^ 31"
  shows "texCoord f tex = (c_trunc (f * real (unat tex)) mod 2 ^ 32) mod uint tex"
proof -
  let ?r = "(word_of_int (c_trunc (f * real (unat tex))) :: u32) mod tex"
  have u: "uint ?r = (c_trunc (f * real (unat tex)) mod 2 ^ 32) mod uint tex"
    by (simp add: uint_mod uint_word_of_int)
  have "uint ?r < uint tex"
    using u assms(1) by simp
  with assms(2) have "uint ?r < 2 ^ 31" by simp
  then have "sint ?r = uint ?r" by (rule sint_u32_small)
  with u show ?thesis by (simp add: texCoord_def)
qed

lemma getPixel_in_range:
  assumes "0 \<le> tx" "tx < uint (imgWidth img)" "0 \<le> ty" "ty < uint (imgHeight img)"
  shows "getPixel img tx ty = Some (imgPixel img (nat tx) (nat ty))"
proof -
  have x: "uint (word_of_int tx :: u32) = tx" and y: "uint (word_of_int ty :: u32) = ty"
    using assms by (simp_all add: uint_word_of_int_small)
  then have "(word_of_int tx :: u32) < imgWidth img" "(word_of_int ty :: u32) < imgHeight img"
    using assms by (simp_all add: word_less_def)
  with x y show ?thesis by (simp add: getPixel_def unat_eq_nat_uint)
qed

lemma texCoord_in_image:
  "0 < uint tex \<Longrightarrow> uint tex < 2 ^ 31 \<Longrightarrow> 0 \<le> texCoord f tex \<and> texCoord f tex < uint tex"
  by (simp add: texCoord_eq)

lemma floorPixel_Some:
  assumes "0 < uint (imgWidth img)" "uint (imgWidth img) < 2 ^ 31"
    "0 < uint (imgHeight img)" "uint (imgHeight img) < 2 ^ 31"
  shows "floorPixel img px py pa x y \<noteq> None"
  using assms texCoord_in_image [of "imgWidth img"] texCoord_in_image [of "imgHeight img"]
  by (simp add: floorPixel_def Let_def getPixel_in_range)

text \<open>C9: the texture coordinate \<open>(int)(f * tex) % tex\<close>, computed as the code computes
  it (through \<open>unsigned int\<close>), lies in \<open>[0, tex)\<close> for every world coordinate \<open>f\<close>,
  negative ones included, so \<open>getPixel\<close> is never called outside the image (for a
  non-empty texture narrower than \<open>2^31\<close>).\<close>

theorem texCoord_bounds:
  assumes "0 < uint tex" "uint tex < 2 ^ 31"
  shows "0 \<le> texCoord f tex \<and> texCoord f tex < uint tex"
  using assms by (simp add: texCoord_eq)

theorem texCoord_bounds_witness:
  "0 \<le> texCoord (- 33 / 10) 64 \<and> texCoord (- 33 / 10) 64 < 64"
  using texCoord_bounds [of 64 "- 33 / 10"] by simp

text \<open>C10: for a texture whose width is a power of two \<open>2^k\<close> (\<open>k < 31\<close>), the unsigned
  remainder is the mathematical remainder \<open>mod 2^k\<close> of the truncated product: the
  \<open>unsigned\<close> detour does not change the texel.\<close>

theorem texCoord_pow2_wrap:
  assumes "uint tex = 2 ^ k" "k < 31"
  shows "texCoord f tex = c_trunc (f * real (unat tex)) mod 2 ^ k"
proof -
  have "(2::int) ^ k < 2 ^ 31" using assms(2) by (rule power_strict_increasing) simp
  with assms(1) have lt: "uint tex < 2 ^ 31" by simp
  from assms(1) have pos: "0 < uint tex" by simp
  have "(2::int) ^ k dvd 2 ^ 32" using assms(2) by (intro le_imp_power_dvd) simp
  then show ?thesis using assms(1) by (simp add: texCoord_eq [OF pos lt] mod_mod_cancel)
qed

theorem texCoord_pow2_wrap_witness:
  "texCoord (- 33 / 10) 64 = c_trunc (- 33 / 10 * real (unat (64 :: u32))) mod 2 ^ 6"
  using texCoord_pow2_wrap [of 64 6] by simp

text \<open>C11: for non-negative world coordinates the texture tiles once per grid unit: moving
  one unit along an axis gives the same texel (while the products stay in \<open>int\<close>
  range).\<close>

theorem texCoord_tiles:
  assumes "0 \<le> f" "0 < uint tex" "(f + 1) * real (unat tex) < 2 ^ 31"
  shows "texCoord (f + 1) tex = texCoord f tex"
proof -
  define W where "W = real (unat tex)"
  define U where "U = uint tex"
  have WU: "W = of_int U" by (simp only: W_def U_def uint_nat of_int_of_nat_eq)
  have U0: "0 < U" using assms(2) by (simp add: U_def)
  have lim: "(f + 1) * W < 2 ^ 31" using assms(3) by (simp only: W_def)
  have fW: "0 \<le> f * W" using assms(1) U0 WU by simp
  have "W \<le> (f + 1) * W" using assms(1) U0 WU by simp
  with lim have "W < 2 ^ 31" by linarith
  then have U31: "U < 2 ^ 31" using WU by simp
  define v where "v = c_trunc (f * W)"
  have v0: "0 \<le> v" using fW by (simp add: v_def)
  have "(f + 1) * W = f * W + of_int U"
    using WU by (simp add: algebra_simps)
  moreover have "0 \<le> f * W + of_int U" using fW U0 by simp
  ultimately have shift: "c_trunc ((f + 1) * W) = v + U"
    using fW by (simp add: v_def)
  have "of_int v \<le> f * W" using fW unfolding v_def by (rule c_trunc_le_self)
  then have "of_int (v + U) \<le> (f + 1) * W" using WU by (simp add: algebra_simps)
  with lim have "of_int (v + U) < (2::real) ^ 31" by linarith
  then have small: "v + U < 2 ^ 31" by simp
  have "(v + U) mod 2 ^ 32 = v + U" using v0 U0 small by simp
  moreover have "v mod 2 ^ 32 = v" using v0 U0 small by simp
  moreover have "texCoord (f + 1) tex = (c_trunc ((f + 1) * W) mod 2 ^ 32) mod U"
    using texCoord_eq [OF assms(2)] U31 by (simp only: W_def U_def)
  moreover have "texCoord f tex = (v mod 2 ^ 32) mod U"
    using texCoord_eq [OF assms(2)] U31 by (simp only: W_def U_def v_def)
  ultimately show ?thesis using shift by simp
qed
theorem texCoord_tiles_witness:
  "texCoord (1 / 2 + 1) 64 = texCoord (1 / 2) 64"
  using texCoord_tiles [of "1 / 2" 64] by simp

text \<open>C12: across world coordinate 0 the texture does not tile: \<open>(int)\<close> truncates
  toward zero, so texel column 0 covers the whole interval \<open>(-1/tex, 1/tex)\<close>, twice the
  width of every other texel. For any texture of width \<open>tex > 1\<close> and any coordinate
  \<open>f\<close> in \<open>(-1/tex, 0)\<close>, the code samples texel 0 at \<open>f\<close> while one grid unit further,
  at \<open>f + 1\<close>, it samples the last texel \<open>tex - 1\<close>: periodicity (C11) fails there.\<close>

theorem texCoord_seam_at_zero:
  assumes "1 < uint tex" "uint tex < 2 ^ 31" "- 1 < f * real (unat tex)" "f < 0"
  shows "texCoord f tex = 0 \<and> texCoord (f + 1) tex = uint tex - 1"
proof -
  define W where "W = real (unat tex)"
  define U where "U = uint tex"
  have WU: "W = of_int U" by (simp only: W_def U_def uint_nat of_int_of_nat_eq)
  have U1: "1 < U" and U31: "U < 2 ^ 31" using assms(1,2) by (simp_all add: U_def)
  have l: "- 1 < f * W" using assms(3) by (simp only: W_def)
  have "f * W < 0" using assms(4) U1 WU by (simp add: mult_neg_pos)
  with l have t0: "c_trunc (f * W) = 0" by (simp add: c_trunc_neg ceiling_eq_iff)
  have "(f + 1) * W = f * W + of_int U" using WU by (simp add: algebra_simps)
  with l \<open>f * W < 0\<close> have "of_int (U - 1) \<le> (f + 1) * W" "(f + 1) * W < of_int (U - 1) + 1"
    by simp_all
  moreover have "0 \<le> (f + 1) * W" using \<open>of_int (U - 1) \<le> (f + 1) * W\<close> U1 by linarith
  ultimately have t1: "c_trunc ((f + 1) * W) = U - 1" by (simp add: floor_eq_iff)
  have e0: "texCoord f tex = (c_trunc (f * W) mod 2 ^ 32) mod U"
    using texCoord_eq [of tex f] U1 U31 by (simp only: W_def U_def)
  have e1: "texCoord (f + 1) tex = (c_trunc ((f + 1) * W) mod 2 ^ 32) mod U"
    using texCoord_eq [of tex "f + 1"] U1 U31 by (simp only: W_def U_def)
  have m32: "(U - 1) mod 2 ^ 32 = U - 1" using U1 U31 by simp
  have mU: "(U - 1) mod U = U - 1" by (rule mod_pos_pos_trivial) (use U1 in linarith)+
  have "texCoord f tex = 0" using e0 t0 by simp
  moreover have "texCoord (f + 1) tex = U - 1" by (simp only: e1 t1 m32 mU)
  ultimately show ?thesis by (simp add: U_def)
qed

theorem texCoord_seam_at_zero_witness:
  "texCoord (- 1 / 8) 4 = 0 \<and> texCoord (- 1 / 8 + 1) 4 = 3"
  using texCoord_seam_at_zero [of 4 "- 1 / 8"] by simp

subsection \<open>Wall slices\<close>

lemma wallHeight_range:
  assumes "0.1 \<le> d" "d \<le> maxDepth"
  shows "25 \<le> wallHeight d \<and> wallHeight d \<le> 4000"
proof -
  from assms have d0: "0 < d" by simp
  have "25 \<le> real_of_int screenHeight / d"
    using assms d0 by (simp add: screenHeight_def maxDepth_def pos_le_divide_eq)
  moreover have "real_of_int screenHeight / d \<le> 4000"
    using assms d0 by (simp add: screenHeight_def pos_divide_le_eq)
  ultimately have "c_trunc 25 \<le> wallHeight d" "wallHeight d \<le> c_trunc 4000"
    unfolding wallHeight_def by (simp_all only: c_trunc_mono)
  then show ?thesis by simp
qed

lemma floorStart_eq: "0 \<le> wh \<Longrightarrow> floorStart wh = 200 + wh div 2"
  by (simp add: floorStart_def screenHeight_def)

text \<open>C6: the wall slice is never taller for a farther wall: \<open>wallHeight\<close> does not
  increase with the distance.\<close>

theorem wallHeight_antimono:
  assumes "0 < d1" "d1 \<le> d2"
  shows "wallHeight d2 \<le> wallHeight d1"
proof -
  have "real_of_int screenHeight / d2 \<le> real_of_int screenHeight / d1"
    using assms by (intro divide_left_mono) (simp_all add: screenHeight_def)
  then show ?thesis unfolding wallHeight_def by (rule c_trunc_mono)
qed

theorem wallHeight_antimono_witness:
  "wallHeight 4 \<le> wallHeight 2 \<and> wallHeight 4 = 100 \<and> wallHeight 2 = 200"
proof -
  have "wallHeight 4 \<le> wallHeight 2" by (rule wallHeight_antimono) simp_all
  then show ?thesis by (simp add: wallHeight_def screenHeight_def)
qed

text \<open>C13: the grey level of a slice stays in \<open>[0, 255]\<close> and gets darker (not lighter)
  with distance.\<close>

theorem shade_bounded_antimono:
  assumes "0 \<le> d1" "d1 \<le> d2"
  shows "0 \<le> shade d2 \<and> shade d2 \<le> 255 \<and> shade d2 \<le> shade d1"
proof -
  have "c_trunc (d1 * 20) \<le> c_trunc (d2 * 20)" using assms by (intro c_trunc_mono) simp
  with assms show ?thesis by (simp add: shade_def)
qed

theorem shade_bounded_antimono_witness:
  "0 \<le> shade 16 \<and> shade 16 \<le> 255 \<and> shade 16 \<le> shade 0.1 \<and> shade 16 = 0 \<and> shade 0.1 = 253"
proof -
  have "0 \<le> shade 16 \<and> shade 16 \<le> 255 \<and> shade 16 \<le> shade 0.1"
    by (rule shade_bounded_antimono) simp_all
  then show ?thesis by (simp add: shade_def)
qed

text \<open>C14: the floor loop starts at the slice's bottom edge, not at its midpoint:
  \<open>floorStart wh\<close> is \<open>sliceTop wh + wh\<close>, one row higher when \<open>wh\<close> is odd, so the
  floor overdraws the slice's last row for odd heights.\<close>

theorem floorStart_slice_bottom:
  "0 \<le> wh \<Longrightarrow> floorStart wh = sliceTop wh + wh - wh mod 2"
  by (simp add: floorStart_def sliceTop_def screenHeight_def) presburger
theorem floorStart_slice_bottom_witness:
  "floorStart 25 = sliceTop 25 + 25 - 1 \<and> floorStart 25 = 212 \<and> sliceTop 25 = 188"
proof -
  have "floorStart 25 = sliceTop 25 + 25 - 25 mod 2" by (rule floorStart_slice_bottom) simp
  then show ?thesis by (simp add: floorStart_def sliceTop_def screenHeight_def)
qed

subsection \<open>Floor casting\<close>

text \<open>C7: for every distance the ray caster can return (\<open>[0.1, maxDepth]\<close>), every row of
  the floor loop lies at least 12 rows below the horizon, so the inverse projection
  \<open>screenHeight / (2 y - screenHeight)\<close> divides by at least 24 and the floor distance
  is positive and at most \<open>400/24\<close>: the horizon guard the spec asks for is not needed.\<close>

theorem floor_rows_below_horizon:
  assumes "0.1 \<le> d" "d \<le> maxDepth" "y \<in> set [floorStart (wallHeight d)..screenHeight - 1]"
  shows "24 \<le> 2 * y - screenHeight \<and> 0 < floorDistance y \<and> floorDistance y \<le> 400 / 24"
proof -
  from wallHeight_range [OF assms(1,2)] have "25 \<le> wallHeight d" by simp
  then have "212 \<le> floorStart (wallHeight d)" by (simp add: floorStart_eq)
  with assms(3) have y: "212 \<le> y" by simp
  then have den: "24 \<le> 2 * y - screenHeight" by (simp add: screenHeight_def)
  then have r: "(24::real) \<le> 2 * real_of_int y - real_of_int screenHeight"
    by (simp add: screenHeight_def)
  then have "real_of_int screenHeight / (2 * real_of_int y - real_of_int screenHeight)
      \<le> real_of_int screenHeight / 24"
    by (intro divide_left_mono) (simp_all add: screenHeight_def)
  with r den show ?thesis
    by (simp add: floorDistance_def screenHeight_def)
qed

theorem floor_rows_below_horizon_witness:
  "24 \<le> 2 * 212 - screenHeight \<and> 0 < floorDistance 212 \<and> floorDistance 212 \<le> 400 / 24"
proof -
  have "(212::int) \<in> set [floorStart (wallHeight 16)..screenHeight - 1]"
    by (simp add: floorStart_def wallHeight_def screenHeight_def)
  then show ?thesis using floor_rows_below_horizon [of 16 212] by (simp add: maxDepth_def)
qed

text \<open>C8: the floor under column \<open>x\<close> is cast along the same ray as the wall of column
  \<open>x\<close>: the angle \<open>playerAngle + (x / screenWidth - 0.5) fov\<close> of the floor loop equals
  the angle \<open>castRays\<close> uses.\<close>

theorem floorAngle_eq_rayAngle: "floorAngle playerAngle x = rayAngle playerAngle x"
  by (simp add: floorAngle_def rayAngle_def algebra_simps)

subsection \<open>The whole view\<close>

lemma renderColumn_Some:
  assumes "0 < uint (imgWidth img)" "uint (imgWidth img) < 2 ^ 31"
    "0 < uint (imgHeight img)" "uint (imgHeight img) < 2 ^ 31" "nat x < length distances"
  shows "renderColumn img px py pa distances x \<noteq> None"
proof -
  have "those (map (floorPixel img px py pa x) ys) \<noteq> None" for ys
    using assms(1-4) by (intro those_map_not_None floorPixel_Some)
  with assms(5) show ?thesis by (simp add: renderColumn_def Let_def)
qed

lemma renderPlayerView_Some:
  assumes "0 < uint (imgWidth img)" "uint (imgWidth img) < 2 ^ 31"
    "0 < uint (imgHeight img)" "uint (imgHeight img) < 2 ^ 31"
    "length distances = nat screenWidth"
  shows "renderPlayerView img px py pa distances \<noteq> None"
proof -
  have "renderColumn img px py pa distances x \<noteq> None" if "x \<in> set [0..screenWidth - 1]" for x
    using that assms by (intro renderColumn_Some) (auto simp: screenWidth_def nat_less_iff)
  then have "those (map (renderColumn img px py pa distances) [0..screenWidth - 1]) \<noteq> None"
    by (rule those_map_not_None)
  then show ?thesis by (simp add: renderPlayerView_def)
qed

end
