(* ===== verification/Input.thy ===== *)
theory Input
  imports World
begin

text \<open>
  Input and motion, \<open>handleInput\<close> (\<open>src/src/main.cpp\<close>, lines 149--210). The
  player's pose lives in the globals \<open>playerX\<close>, \<open>playerY\<close>, \<open>playerAngle\<close>, and the
  mouse handling keeps two function-local statics, \<open>firstMouseMovement\<close> and
  \<open>previousMousePosition\<close>; all five are fields of the record \<open>sim\<close>, which
  \<open>handleInput\<close> takes and returns. Pressed keys and the pointer position are the
  frame's input. The collision test reads \<open>worldMap\<close> with no bounds check, so each
  read is \<open>worldMap_at\<close> and an out-of-range read makes the result \<open>None\<close>.
  \<open>window.setMouseCursorVisible(false)\<close> is an SFML call with no effect on the state.
\<close>

record sim =
  playerX :: real
  playerY :: real
  playerAngle :: real
  firstMouseMovement :: bool
  previousMousePosition :: "int \<times> int"

record keys =
  keyW :: bool
  keyS :: bool
  keyA :: bool
  keyD :: bool

text \<open>Lines 151--175: the candidate position, one key after the other.\<close>

definition proposeMove :: "real \<Rightarrow> real \<Rightarrow> real \<Rightarrow> keys \<Rightarrow> real \<times> real" where
  "proposeMove x y a k =
     (let (x, y) = (if keyW k then (x + cos a * moveSpeed, y + sin a * moveSpeed) else (x, y));
          (x, y) = (if keyS k then (x - cos a * moveSpeed, y - sin a * moveSpeed) else (x, y));
          (x, y) = (if keyD k then (x - sin a * moveSpeed, y + cos a * moveSpeed) else (x, y));
          (x, y) = (if keyA k then (x + sin a * moveSpeed, y - cos a * moveSpeed) else (x, y))
      in (x, y))"

text \<open>Lines 178--185: each axis is committed only if the cell it leads to is empty; the
  \<open>Y\<close> test uses \<open>playerX\<close> as already updated by the \<open>X\<close> test.\<close>

definition collideX :: "real \<Rightarrow> real \<Rightarrow> real \<Rightarrow> real option" where
  "collideX x y newX =
     (case worldMap_at (c_trunc newX) (c_trunc y) of
        None \<Rightarrow> None
      | Some c \<Rightarrow> Some (if c = 0 then newX else x))"

definition collideY :: "real \<Rightarrow> real \<Rightarrow> real \<Rightarrow> real option" where
  "collideY x y newY =
     (case worldMap_at (c_trunc x) (c_trunc newY) of
        None \<Rightarrow> None
      | Some c \<Rightarrow> Some (if c = 0 then newY else y))"

text \<open>Lines 188--207: the first call takes the current pointer position as the previous
  one, so it turns by nothing; the sensitivity is the literal \<open>0.002f\<close>.\<close>

definition mouseLook :: "sim \<Rightarrow> int \<times> int \<Rightarrow> sim" where
  "mouseLook st cur =
     (let prev = (if firstMouseMovement st then cur else previousMousePosition st);
          mouseDeltaX = fst cur - fst prev
      in st\<lparr>playerAngle := playerAngle st + real_of_int mouseDeltaX * 0.002,
            firstMouseMovement := False, previousMousePosition := cur\<rparr>)"

definition handleInput :: "sim \<Rightarrow> keys \<Rightarrow> int \<times> int \<Rightarrow> sim option" where
  "handleInput st k cur =
     (case proposeMove (playerX st) (playerY st) (playerAngle st) k of (newX, newY) \<Rightarrow>
        (case collideX (playerX st) (playerY st) newX of
           None \<Rightarrow> None
         | Some x \<Rightarrow>
             (case collideY x (playerY st) newY of
                None \<Rightarrow> None
              | Some y \<Rightarrow> Some (mouseLook (st\<lparr>playerX := x, playerY := y\<rparr>) cur))))"

text \<open>The invariant the movement keeps: the player stands in an empty cell of the grid.\<close>

definition player_ok :: "sim \<Rightarrow> bool" where
  "player_ok st \<longleftrightarrow> worldMap_at (c_trunc (playerX st)) (c_trunc (playerY st)) = Some 0"

subsection \<open>The collision test keeps the player inside\<close>

lemma proposeMove_near:
  "\<bar>fst (proposeMove x y a k) - x\<bar> \<le> 0.1 \<and> \<bar>snd (proposeMove x y a k) - y\<bar> \<le> 0.1"
proof -
  have c: "-1 \<le> cos a" "cos a \<le> 1" and s: "-1 \<le> sin a" "sin a \<le> 1" by simp_all
  have "-0.1 \<le> fst (proposeMove x y a k) - x \<and> fst (proposeMove x y a k) - x \<le> 0.1 \<and>
        -0.1 \<le> snd (proposeMove x y a k) - y \<and> snd (proposeMove x y a k) - y \<le> 0.1"
    by (cases "keyW k"; cases "keyS k"; cases "keyA k"; cases "keyD k";
        simp add: proposeMove_def Let_def moveSpeed_def; insert c s; linarith)
  then show ?thesis by (intro conjI abs_leI) linarith+
qed

lemma collideX_ok:
  assumes "worldMap_at (c_trunc x) (c_trunc y) = Some 0" "\<bar>nx - x\<bar> \<le> 0.1"
  shows "\<exists>x'. collideX x y nx = Some x' \<and> worldMap_at (c_trunc x') (c_trunc y) = Some 0"
proof -
  from empty_cell_interior [OF assms(1)] have b: "1 \<le> x" "x < 7" "1 \<le> y" "y < 7" by simp_all
  from near_cell_in_range [OF b(1,2) assms(2)] have "0 \<le> c_trunc nx" "c_trunc nx < 8" by simp_all
  moreover from b(3,4) have "0 \<le> c_trunc y" "c_trunc y < 8" by (simp_all add: c_trunc_less_iff)
  ultimately obtain c where c: "worldMap_at (c_trunc nx) (c_trunc y) = Some c"
    using worldMap_at_in_range by blast
  with assms(1) show ?thesis by (simp add: collideX_def)
qed

lemma collideY_ok:
  assumes "worldMap_at (c_trunc x) (c_trunc y) = Some 0" "\<bar>ny - y\<bar> \<le> 0.1"
  shows "\<exists>y'. collideY x y ny = Some y' \<and> worldMap_at (c_trunc x) (c_trunc y') = Some 0"
proof -
  from empty_cell_interior [OF assms(1)] have b: "1 \<le> x" "x < 7" "1 \<le> y" "y < 7" by simp_all
  from near_cell_in_range [OF b(3,4) assms(2)] have "0 \<le> c_trunc ny" "c_trunc ny < 8" by simp_all
  moreover from b(1,2) have "0 \<le> c_trunc x" "c_trunc x < 8" by (simp_all add: c_trunc_less_iff)
  ultimately obtain c where c: "worldMap_at (c_trunc x) (c_trunc ny) = Some c"
    using worldMap_at_in_range by blast
  with assms(1) show ?thesis by (simp add: collideY_def)
qed

lemma mouseLook_pos [simp]:
  "playerX (mouseLook st cur) = playerX st" "playerY (mouseLook st cur) = playerY st"
  by (simp_all add: mouseLook_def Let_def)

lemma handleInput_ok:
  assumes "player_ok st"
  shows "\<exists>st'. handleInput st k cur = Some st' \<and> player_ok st'"
proof -
  obtain nx ny where m: "proposeMove (playerX st) (playerY st) (playerAngle st) k = (nx, ny)"
    by (cases "proposeMove (playerX st) (playerY st) (playerAngle st) k")
  with proposeMove_near [of "playerX st" "playerY st" "playerAngle st" k]
  have dx: "\<bar>nx - playerX st\<bar> \<le> 0.1" and dy: "\<bar>ny - playerY st\<bar> \<le> 0.1" by simp_all
  from collideX_ok [OF assms [unfolded player_ok_def] dx] obtain x' where
    x': "collideX (playerX st) (playerY st) nx = Some x'"
    and cx: "worldMap_at (c_trunc x') (c_trunc (playerY st)) = Some 0" by blast
  from collideY_ok [OF cx dy] obtain y' where
    y': "collideY x' (playerY st) ny = Some y'" and cy: "worldMap_at (c_trunc x') (c_trunc y') = Some 0"
    by blast
  from m x' y' cy show ?thesis by (simp add: handleInput_def player_ok_def)
qed

lemma handleInput_Some_iff:
  "handleInput st k cur = Some st' \<longleftrightarrow>
   (\<exists>x' y'. collideX (playerX st) (playerY st) (fst (proposeMove (playerX st) (playerY st) (playerAngle st) k)) = Some x' \<and>
      collideY x' (playerY st) (snd (proposeMove (playerX st) (playerY st) (playerAngle st) k)) = Some y' \<and>
      st' = mouseLook (st\<lparr>playerX := x', playerY := y'\<rparr>) cur)"
  by (auto simp: handleInput_def split: prod.split option.split)

subsection \<open>Properties of the input handler\<close>

text \<open>C15: the collision test, axis by axis: the new \<open>x\<close> is taken only if the cell at
  \<open>(newX, playerY)\<close> is empty, and the new \<open>y\<close> only if the cell at
  \<open>(playerX, newY)\<close> is empty, where \<open>playerX\<close> is the value just committed. A move
  blocked on one axis still moves along the other (the player slides along walls).\<close>

theorem handleInput_collision:
  assumes "handleInput st k cur = Some st'"
    and "proposeMove (playerX st) (playerY st) (playerAngle st) k = (newX, newY)"
  shows "playerX st' = (if worldMap_at (c_trunc newX) (c_trunc (playerY st)) = Some 0 then newX else playerX st) \<and>
         playerY st' = (if worldMap_at (c_trunc (playerX st')) (c_trunc newY) = Some 0 then newY else playerY st)"
  using assms
  by (auto simp: handleInput_Some_iff collideX_def collideY_def split: option.splits if_splits)

theorem handleInput_collision_witness:
  "handleInput \<lparr>playerX = 6.98, playerY = 3.5, playerAngle = 0, firstMouseMovement = True,
       previousMousePosition = (0, 0)\<rparr>
     \<lparr>keyW = True, keyS = False, keyA = False, keyD = True\<rparr> (100, 50) = Some \<lparr>playerX = 6.98, playerY = 3.55, playerAngle = 0, firstMouseMovement = False,
       previousMousePosition = (100, 50)\<rparr> \<and>
   proposeMove 6.98 3.5 0 \<lparr>keyW = True, keyS = False, keyA = False, keyD = True\<rparr> = (7.03, 3.55) \<and>
   playerX \<lparr>playerX = 6.98, playerY = 3.55, playerAngle = 0, firstMouseMovement = False,
       previousMousePosition = (100, 50)\<rparr> =
     (if worldMap_at (c_trunc 7.03) (c_trunc 3.5) = Some 0 then 7.03 else 6.98) \<and>
   playerY \<lparr>playerX = 6.98, playerY = 3.55, playerAngle = 0, firstMouseMovement = False,
       previousMousePosition = (100, 50)\<rparr> =
     (if worldMap_at (c_trunc 6.98) (c_trunc 3.55) = Some 0 then 3.55 else 3.5)"
proof -
  have run: "handleInput \<lparr>playerX = 6.98, playerY = 3.5, playerAngle = 0, firstMouseMovement = True,
       previousMousePosition = (0, 0)\<rparr>
     \<lparr>keyW = True, keyS = False, keyA = False, keyD = True\<rparr> (100, 50) = Some \<lparr>playerX = 6.98, playerY = 3.55, playerAngle = 0, firstMouseMovement = False,
       previousMousePosition = (100, 50)\<rparr>"
    by (simp add: handleInput_def proposeMove_def collideX_def collideY_def mouseLook_def grid_simps)
  have mv: "proposeMove (playerX \<lparr>playerX = 6.98, playerY = 3.5, playerAngle = 0, firstMouseMovement = True,
       previousMousePosition = (0, 0)\<rparr>)
      (playerY \<lparr>playerX = 6.98, playerY = 3.5, playerAngle = 0, firstMouseMovement = True,
       previousMousePosition = (0, 0)\<rparr>)
      (playerAngle \<lparr>playerX = 6.98, playerY = 3.5, playerAngle = 0, firstMouseMovement = True,
       previousMousePosition = (0, 0)\<rparr>) \<lparr>keyW = True, keyS = False, keyA = False, keyD = True\<rparr> = (7.03, 3.55)"
    by (simp add: proposeMove_def moveSpeed_def)
  show ?thesis using run mv handleInput_collision [OF run mv] by (simp add: grid_simps)
qed


text \<open>C17: the mouse turns the player by \<open>0.002\<close> radians per pixel of horizontal pointer
  movement since the previous frame; on the first frame there is no previous position
  and the turn is zero whatever the pointer position. Afterwards the flag is cleared and
  the position remembered.\<close>

theorem handleInput_mouse:
  assumes "handleInput st k cur = Some st'"
  shows "playerAngle st' = playerAngle st +
           (if firstMouseMovement st then 0 else real_of_int (fst cur - fst (previousMousePosition st)) * 0.002) \<and>
         \<not> firstMouseMovement st' \<and> previousMousePosition st' = cur"
  using assms by (auto simp: handleInput_Some_iff mouseLook_def Let_def)

theorem handleInput_mouse_witness:
  "handleInput \<lparr>playerX = 2, playerY = 2, playerAngle = 0, firstMouseMovement = True,
       previousMousePosition = (0, 0)\<rparr>
     \<lparr>keyW = True, keyS = False, keyA = False, keyD = True\<rparr> (523, 311) = Some \<lparr>playerX = 2.05, playerY = 2.05, playerAngle = 0, firstMouseMovement = False,
       previousMousePosition = (523, 311)\<rparr> \<and>
   playerAngle \<lparr>playerX = 2.05, playerY = 2.05, playerAngle = 0, firstMouseMovement = False,
       previousMousePosition = (523, 311)\<rparr> = 0 + 0"
proof -
  have run: "handleInput \<lparr>playerX = 2, playerY = 2, playerAngle = 0, firstMouseMovement = True,
       previousMousePosition = (0, 0)\<rparr>
     \<lparr>keyW = True, keyS = False, keyA = False, keyD = True\<rparr> (523, 311) = Some \<lparr>playerX = 2.05, playerY = 2.05, playerAngle = 0, firstMouseMovement = False,
       previousMousePosition = (523, 311)\<rparr>"
    by (simp add: handleInput_def proposeMove_def collideX_def collideY_def mouseLook_def grid_simps)
  from handleInput_mouse [OF run] run show ?thesis by simp
qed

end
