(* ===== verification/MapView.thy ===== *)
theory MapView
  imports RayCaster
begin

text \<open>
  The top-down view, \<open>renderBirdsEyeView\<close> (\<open>src/src/main.cpp\<close>, lines 32--70). It
  draws the 64 cells row by row (50 pixels each, black for a wall), the player as a
  circle of radius 5 whose bounding box starts at the player's pixel position, and one
  line per distance sample from the circle's centre to the end of the ray. The model
  returns the draw commands in order; \<open>None\<close> would mean an out-of-range read of
  \<open>worldMap\<close> or of \<open>distances\<close>.
\<close>

datatype mapCmd =
    MapCell int int bool           \<comment> \<open>pixel position of the cell, wall or not\<close>
  | MapPlayer real real            \<comment> \<open>position of the player circle\<close>
  | MapRay real real real real     \<comment> \<open>start and end of a ray line\<close>

definition cellSize :: int where
  "cellSize = 50"

definition mapCell :: "int \<Rightarrow> int \<Rightarrow> mapCmd option" where
  "mapCell x y = map_option (\<lambda>c. MapCell (x * cellSize) (y * cellSize) (c = 1)) (worldMap_at x y)"

definition mapRayAngle :: "real \<Rightarrow> nat \<Rightarrow> nat \<Rightarrow> real" where
  "mapRayAngle playerAngle i n = (playerAngle - fov / 2) + (real i / real n) * fov"

definition mapRayEnd :: "real \<Rightarrow> real \<Rightarrow> real \<Rightarrow> real \<Rightarrow> real \<times> real" where
  "mapRayEnd playerX playerY a d = (playerX + cos a * d, playerY + sin a * d)"

definition mapRay :: "real \<Rightarrow> real \<Rightarrow> real \<Rightarrow> real list \<Rightarrow> nat \<Rightarrow> mapCmd option" where
  "mapRay playerX playerY playerAngle distances i =
     map_option
       (\<lambda>d. case mapRayEnd playerX playerY (mapRayAngle playerAngle i (length distances)) d of
              (rayEndX, rayEndY) \<Rightarrow>
                MapRay (playerX * real_of_int cellSize + 5) (playerY * real_of_int cellSize + 5)
                       (rayEndX * real_of_int cellSize) (rayEndY * real_of_int cellSize))
       (nth_opt distances i)"

definition renderBirdsEyeView :: "real \<Rightarrow> real \<Rightarrow> real \<Rightarrow> real list \<Rightarrow> mapCmd list option" where
  "renderBirdsEyeView playerX playerY playerAngle distances =
     (case those (map (\<lambda>(x, y). mapCell x y)
                      [(x, y). y \<leftarrow> [0..mapHeight - 1], x \<leftarrow> [0..mapWidth - 1]]) of
        None \<Rightarrow> None
      | Some cells \<Rightarrow>
          (case those (map (mapRay playerX playerY playerAngle distances) [0..<length distances]) of
             None \<Rightarrow> None
           | Some rays \<Rightarrow>
               Some (cells @ [MapPlayer (playerX * real_of_int cellSize) (playerY * real_of_int cellSize)]
                     @ rays)))"

subsection \<open>Properties of the map view\<close>

lemma renderBirdsEyeView_Some:
  "\<exists>cmds. renderBirdsEyeView px py pa ds = Some cmds"
proof -
  have "those (map (\<lambda>(x, y). mapCell x y) [(x, y). y \<leftarrow> [0..mapHeight - 1], x \<leftarrow> [0..mapWidth - 1]]) \<noteq> None"
    by (rule those_map_not_None) (auto simp: mapWidth_def mapHeight_def mapCell_def worldMap_at_def in_map_def)
  moreover have "those (map (mapRay px py pa ds) [0..<length ds]) \<noteq> None"
    by (rule those_map_not_None) (auto simp: mapRay_def)
  ultimately show ?thesis by (auto simp: renderBirdsEyeView_def split: option.split)
qed

text \<open>C18: from a player standing in an empty cell, each ray line of the map ends at the
  point the ray caster stopped at: at the sampled distance from the player along the
  ray's direction \<open>(cos, sin)\<close> of the angle \<open>castRays\<close> used, and that point lies in a
  wall cell of \<open>worldMap\<close>.\<close>

theorem mapRayEnd_at_wall_sample:
  assumes "worldMap_at (c_trunc px) (c_trunc py) = Some 0"
    "castRays px py pa = Some ds" "i < length ds"
  shows "worldMap_at (c_trunc (fst (mapRayEnd px py (mapRayAngle pa i (length ds)) (ds ! i))))
                     (c_trunc (snd (mapRayEnd px py (mapRayAngle pa i (length ds)) (ds ! i)))) = Some 1 \<and>
         sqrt ((fst (mapRayEnd px py (mapRayAngle pa i (length ds)) (ds ! i)) - px)\<^sup>2 +
               (snd (mapRayEnd px py (mapRayAngle pa i (length ds)) (ds ! i)) - py)\<^sup>2) = ds ! i"
proof -
  define a where "a = rayAngle pa (int i)"
  from castRays_nth [OF assms(2,3)]
  have len: "length ds = nat screenWidth" and d: "ds ! i = rayDistance px py (cos a) (sin a)"
    by (simp_all add: a_def)
  have ang: "mapRayAngle pa i (length ds) = a"
    using len by (simp add: a_def mapRayAngle_def rayAngle_def screenWidth_def)
  obtain k where dk: "ds ! i = real k / 10" and p: "probe px py (cos a) (sin a) k = Some 1"
    using rayDistance_from_empty_cell [OF assms(1) sin_cos_squared_add2 [of a]] d by auto
  have wall: "worldMap_at (c_trunc (px + cos a * ds ! i)) (c_trunc (py + sin a * ds ! i)) = Some 1"
    using p by (simp only: dk probe_def)
  have "(cos a * ds ! i)\<^sup>2 + (sin a * ds ! i)\<^sup>2 = ((cos a)\<^sup>2 + (sin a)\<^sup>2) * (ds ! i)\<^sup>2"
    by (simp only: power_mult_distrib distrib_right)
  also have "\<dots> = (ds ! i)\<^sup>2" by (simp only: sin_cos_squared_add2 mult_1)
  finally have sq: "(cos a * ds ! i)\<^sup>2 + (sin a * ds ! i)\<^sup>2 = (ds ! i)\<^sup>2" .
  have "0 \<le> ds ! i" using dk by simp
  then have "sqrt ((cos a * ds ! i)\<^sup>2 + (sin a * ds ! i)\<^sup>2) = ds ! i" by (simp only: sq) simp
  with wall ang show ?thesis by (simp add: mapRayEnd_def)
qed

theorem mapRayEnd_at_wall_sample_witness:
  "worldMap_at (c_trunc 2) (c_trunc 2) = Some 0 \<and>
   (\<exists>ds. castRays 2 2 0 = Some ds \<and> 0 < length ds \<and>
     worldMap_at (c_trunc (fst (mapRayEnd 2 2 (mapRayAngle 0 0 (length ds)) (ds ! 0))))
                 (c_trunc (snd (mapRayEnd 2 2 (mapRayAngle 0 0 (length ds)) (ds ! 0)))) = Some 1)"
proof -
  have s: "worldMap_at (c_trunc 2) (c_trunc 2) = Some 0" by (simp add: grid_simps)
  obtain ds where ds: "castRays 2 2 0 = Some ds" "length ds = nat screenWidth"
    using castRays_Some_length by blast
  then have l: "0 < length ds" by (simp add: screenWidth_def)
  show ?thesis using mapRayEnd_at_wall_sample [OF s ds(1) l] s ds(1) l by blast
qed

text \<open>C19: when it is given the output of \<open>castRays\<close> (\<open>screenWidth\<close> samples), the map
  view draws sample \<open>i\<close> at the angle \<open>castRays\<close> cast it with; the two functions
  compute the angle separately (\<open>i / distances.size()\<close> against \<open>x / screenWidth\<close>).\<close>

theorem mapRayAngle_eq_rayAngle:
  assumes "n = nat screenWidth"
  shows "mapRayAngle playerAngle i n = rayAngle playerAngle (int i)"
  using assms by (simp add: mapRayAngle_def rayAngle_def screenWidth_def)

theorem mapRayAngle_eq_rayAngle_witness:
  "mapRayAngle 0 400 800 = rayAngle 0 400"
  using mapRayAngle_eq_rayAngle [of 800 0 400] by (simp add: screenWidth_def)

end
