(* ===== verification/MainLoop.thy ===== *)
theory MainLoop
  imports Projector Input MapView
begin

text \<open>
  The program, \<open>main\<close> (\<open>src/src/main.cpp\<close>, lines 212--246). It opens the two
  windows, loads the floor texture (returning \<open>-1\<close> if that fails), and then runs
  frames while both windows are open. A frame polls each window's events (a
  \<open>Closed\<close> event closes that window), runs \<open>handleInput\<close>, casts the rays from the
  updated pose and draws both views. The loop state \<open>loopState\<close> holds the two
  windows' open flags and the program state \<open>sim\<close> of \<open>Input\<close>; the environment's
  share of a frame (events, keys, pointer) is a \<open>frameInput\<close>. \<open>frame\<close> is one
  iteration, \<open>run\<close> iterates it over a finite list of frame inputs and stops as the
  \<open>while\<close> condition does, \<open>reachable\<close> is the set of loop states a run can reach.
\<close>

datatype event = Closed | OtherEvent

record loopState =
  birdOpen :: bool
  playerOpen :: bool
  game :: sim

record frameInput =
  birdEvents :: "event list"
  playerEvents :: "event list"
  keysDown :: keys
  mousePos :: "int \<times> int"

text \<open>\<open>while (window.pollEvent(event)) if (event.type == Closed) window.close();\<close>\<close>

definition pollEvents :: "bool \<Rightarrow> event list \<Rightarrow> bool" where
  "pollEvents isOpen events \<longleftrightarrow> isOpen \<and> Closed \<notin> set events"

definition initSim :: sim where
  "initSim = \<lparr>playerX = playerX0, playerY = playerY0, playerAngle = playerAngle0,
              firstMouseMovement = True, previousMousePosition = (0, 0)\<rparr>"

definition initLoop :: loopState where
  "initLoop = \<lparr>birdOpen = True, playerOpen = True, game = initSim\<rparr>"

definition frame ::
  "'c image \<Rightarrow> loopState \<Rightarrow> frameInput \<Rightarrow> (loopState \<times> mapCmd list \<times> 'c drawCmd list) option" where
  "frame img st inp =
     (let bOpen = pollEvents (birdOpen st) (birdEvents inp);
          pOpen = pollEvents (playerOpen st) (playerEvents inp)
      in case handleInput (game st) (keysDown inp) (mousePos inp) of
           None \<Rightarrow> None
         | Some g \<Rightarrow>
             (case castRays (playerX g) (playerY g) (playerAngle g) of
                None \<Rightarrow> None
              | Some distances \<Rightarrow>
                  (case renderBirdsEyeView (playerX g) (playerY g) (playerAngle g) distances of
                     None \<Rightarrow> None
                   | Some mapCmds \<Rightarrow>
                       (case renderPlayerView img (playerX g) (playerY g) (playerAngle g) distances of
                          None \<Rightarrow> None
                        | Some viewCmds \<Rightarrow>
                            Some (\<lparr>birdOpen = bOpen, playerOpen = pOpen, game = g\<rparr>,
                                  mapCmds, viewCmds)))))"

fun run :: "'c image \<Rightarrow> loopState \<Rightarrow> frameInput list \<Rightarrow> loopState option" where
  "run img st [] = Some st"
| "run img st (inp # inps) =
     (if birdOpen st \<and> playerOpen st then
        (case frame img st inp of
           None \<Rightarrow> None
         | Some (st', _) \<Rightarrow> run img st' inps)
      else Some st)"

text \<open>\<open>main\<close>: the windows are created first; a failed texture load returns \<open>-1\<close>
  with both windows already open. Otherwise the loop runs over the given frames; the
  exit code is \<open>Some 0\<close> once the loop has stopped and \<open>None\<close> while it still runs.\<close>

definition main :: "bool \<Rightarrow> 'c image \<Rightarrow> frameInput list \<Rightarrow> (int option \<times> loopState) option" where
  "main textureLoaded img inputs =
     (if \<not> textureLoaded then Some (Some (-1), initLoop)
      else (case run img initLoop inputs of
              None \<Rightarrow> None
            | Some st \<Rightarrow> Some (if birdOpen st \<and> playerOpen st then None else Some 0, st)))"

inductive reachable :: "'c image \<Rightarrow> loopState \<Rightarrow> bool" for img :: "'c image" where
  init: "reachable img initLoop"
| step: "reachable img st \<Longrightarrow> birdOpen st \<Longrightarrow> playerOpen st \<Longrightarrow>
         frame img st inp = Some (st', out) \<Longrightarrow> reachable img st'"

definition valid_image :: "'c image \<Rightarrow> bool" where
  "valid_image img \<longleftrightarrow>
     0 < uint (imgWidth img) \<and> uint (imgWidth img) < 2 ^ 31 \<and>
     0 < uint (imgHeight img) \<and> uint (imgHeight img) < 2 ^ 31"

subsection \<open>Every frame runs\<close>

lemma frame_Some:
  assumes "valid_image img" "player_ok (game st)"
  shows "\<exists>st' m v. frame img st inp = Some (st', m, v) \<and> player_ok (game st') \<and>
           birdOpen st' = pollEvents (birdOpen st) (birdEvents inp) \<and>
           playerOpen st' = pollEvents (playerOpen st) (playerEvents inp)"
proof -
  from handleInput_ok [OF assms(2)] obtain g where
    g: "handleInput (game st) (keysDown inp) (mousePos inp) = Some g" and ok: "player_ok g" by blast
  from castRays_Some_length obtain ds where
    ds: "castRays (playerX g) (playerY g) (playerAngle g) = Some ds" "length ds = nat screenWidth" by blast
  from renderBirdsEyeView_Some obtain m where
    m: "renderBirdsEyeView (playerX g) (playerY g) (playerAngle g) ds = Some m" by blast
  from assms(1) ds(2) have "renderPlayerView img (playerX g) (playerY g) (playerAngle g) ds \<noteq> None"
    unfolding valid_image_def by (intro renderPlayerView_Some) simp_all
  then obtain v where v: "renderPlayerView img (playerX g) (playerY g) (playerAngle g) ds = Some v" by blast
  from g ds(1) m v ok show ?thesis by (simp add: frame_def Let_def)
qed

lemma frame_windows:
  "frame img st inp = Some (st', out) \<Longrightarrow>
   birdOpen st' = pollEvents (birdOpen st) (birdEvents inp) \<and>
   playerOpen st' = pollEvents (playerOpen st) (playerEvents inp)"
  by (auto simp: frame_def Let_def split: option.splits)

lemma frame_player_ok:
  "valid_image img \<Longrightarrow> player_ok (game st) \<Longrightarrow> frame img st inp = Some (st', out) \<Longrightarrow> player_ok (game st')"
  using frame_Some [of img st inp] by auto

lemma initLoop_ok: "player_ok (game initLoop)"
  by (simp add: player_ok_def initLoop_def initSim_def playerX0_def playerY0_def grid_simps)

lemma reachable_player_ok:
  "reachable img st \<Longrightarrow> valid_image img \<Longrightarrow> player_ok (game st)"
proof (induction rule: reachable.induct)
  case init
  show ?case by (rule initLoop_ok)
next
  case (step st inp st' out)
  then show ?case by (blast intro: frame_player_ok)
qed

lemma run_Some:
  "valid_image img \<Longrightarrow> player_ok (game st) \<Longrightarrow> \<exists>st'. run img st inps = Some st'"
proof (induction inps arbitrary: st)
  case Nil
  then show ?case by simp
next
  case (Cons inp inps)
  show ?case
  proof (cases "birdOpen st \<and> playerOpen st")
    case True
    from frame_Some [OF Cons.prems] obtain st' m v where
      f: "frame img st inp = Some (st', m, v)" and ok: "player_ok (game st')" by blast
    from Cons.IH [OF Cons.prems(1) ok] True f show ?thesis by simp
  next
    case False
    then show ?thesis by auto
  qed
qed

text \<open>The loop ends exactly when some frame delivers a \<open>Closed\<close> event to one of the windows.\<close>

lemma run_exit:
  assumes "valid_image img" "player_ok (game st)" "birdOpen st" "playerOpen st"
  shows "\<exists>st'. run img st inps = Some st' \<and>
           ((birdOpen st' \<and> playerOpen st') \<longleftrightarrow>
            \<not> (\<exists>inp \<in> set inps. Closed \<in> set (birdEvents inp) \<or> Closed \<in> set (playerEvents inp)))"
  using assms(2-4)
proof (induction inps arbitrary: st)
  case Nil
  then show ?case by simp
next
  case (Cons inp inps)
  from frame_Some [OF assms(1) Cons.prems(1)] obtain st' m v where
    f: "frame img st inp = Some (st', m, v)" and ok: "player_ok (game st')"
    and w: "birdOpen st' = pollEvents (birdOpen st) (birdEvents inp)"
           "playerOpen st' = pollEvents (playerOpen st) (playerEvents inp)" by blast
  show ?case
  proof (cases "Closed \<in> set (birdEvents inp) \<or> Closed \<in> set (playerEvents inp)")
    case True
    with w Cons.prems have "\<not> (birdOpen st' \<and> playerOpen st')" by (auto simp: pollEvents_def)
    moreover from this have "run img st' inps = Some st'" by (cases inps) auto
    ultimately show ?thesis using f Cons.prems True by simp
  next
    case False
    with w Cons.prems have o: "birdOpen st'" "playerOpen st'" by (simp_all add: pollEvents_def)
    from Cons.IH [OF ok o] f Cons.prems False show ?thesis by simp
  qed
qed

subsection \<open>Properties of the main loop\<close>

text \<open>C20: in every state the loop can reach (with a non-empty floor texture narrower
  than \<open>2^31\<close>), the player stands in an empty cell of the grid, and the next frame
  (input, ray casting, both views) runs without an out-of-range read, whatever the
  keys, pointer and window events are.\<close>

theorem reachable_frame_safe:
  assumes "reachable img st" "valid_image img"
  shows "player_ok (game st) \<and> (\<exists>st' m v. frame img st inp = Some (st', m, v))"
proof -
  from reachable_player_ok [OF assms] have ok: "player_ok (game st)" .
  with frame_Some [OF assms(2) ok, of inp] show ?thesis by blast
qed

theorem reachable_frame_safe_witness:
  "reachable \<lparr>imgWidth = 64, imgHeight = 64, imgPixel = (\<lambda>_ _. (0::nat))\<rparr> initLoop \<and>
   valid_image \<lparr>imgWidth = 64, imgHeight = 64, imgPixel = (\<lambda>_ _. (0::nat))\<rparr> \<and>
   player_ok (game initLoop) \<and>
   (\<exists>st' m v. frame \<lparr>imgWidth = 64, imgHeight = 64, imgPixel = (\<lambda>_ _. (0::nat))\<rparr> initLoop \<lparr>birdEvents = [Closed], playerEvents = [], keysDown = \<lparr>keyW = False, keyS = False, keyA = False, keyD = False\<rparr>, mousePos = (0, 0)\<rparr> = Some (st', m, v))"
proof -
  have r: "reachable \<lparr>imgWidth = 64, imgHeight = 64, imgPixel = (\<lambda>_ _. (0::nat))\<rparr> initLoop" by (rule reachable.init)
  have v: "valid_image \<lparr>imgWidth = 64, imgHeight = 64, imgPixel = (\<lambda>_ _. (0::nat))\<rparr>" by (simp add: valid_image_def)
  show ?thesis using reachable_frame_safe [OF r v] r v by blast
qed

text \<open>C21: the loop runs while both windows are open, so a \<open>Closed\<close> event on the map
  window ends the program after this frame even though the first-person window is still
  open: the remaining frames are never run. (The design text says the loop continues
  until both windows are closed.)\<close>

theorem loop_stops_on_one_close:
  assumes "valid_image img" "reachable img st" "birdOpen st" "playerOpen st"
    "Closed \<in> set (birdEvents inp)"
  shows "\<exists>st'. run img st (inp # inps) = Some st' \<and> \<not> birdOpen st' \<and>
           playerOpen st' = (Closed \<notin> set (playerEvents inp))"
proof -
  from reachable_player_ok [OF assms(2,1)] have "player_ok (game st)" .
  from frame_Some [OF assms(1) this] obtain st' m v where
    f: "frame img st inp = Some (st', m, v)"
    and w: "birdOpen st' = pollEvents (birdOpen st) (birdEvents inp)"
           "playerOpen st' = pollEvents (playerOpen st) (playerEvents inp)" by blast
  with assms(3-5) have "\<not> birdOpen st'" "playerOpen st' = (Closed \<notin> set (playerEvents inp))"
    by (simp_all add: pollEvents_def)
  with f assms(3,4) show ?thesis by (cases inps) simp_all
qed

theorem loop_stops_on_one_close_witness:
  "\<exists>st'. run \<lparr>imgWidth = 64, imgHeight = 64, imgPixel = (\<lambda>_ _. (0::nat))\<rparr> initLoop [\<lparr>birdEvents = [Closed], playerEvents = [], keysDown = \<lparr>keyW = False, keyS = False, keyA = False, keyD = False\<rparr>, mousePos = (0, 0)\<rparr>, \<lparr>birdEvents = [], playerEvents = [], keysDown = \<lparr>keyW = False, keyS = False, keyA = False, keyD = False\<rparr>, mousePos = (0, 0)\<rparr>] = Some st' \<and>
     \<not> birdOpen st' \<and> playerOpen st' = True"
proof -
  have r: "reachable \<lparr>imgWidth = 64, imgHeight = 64, imgPixel = (\<lambda>_ _. (0::nat))\<rparr> initLoop" by (rule reachable.init)
  have v: "valid_image \<lparr>imgWidth = 64, imgHeight = 64, imgPixel = (\<lambda>_ _. (0::nat))\<rparr>" by (simp add: valid_image_def)
  show ?thesis
    using loop_stops_on_one_close [OF v r, of "\<lparr>birdEvents = [Closed], playerEvents = [], keysDown = \<lparr>keyW = False, keyS = False, keyA = False, keyD = False\<rparr>, mousePos = (0, 0)\<rparr>"]
    by (simp add: initLoop_def)
qed

text \<open>C22: the exit code of \<open>main\<close>, for every floor texture of valid size and every
  finite sequence of frame inputs: \<open>-1\<close> when the texture fails to load (after both
  windows were created, lines 214--218); otherwise \<open>0\<close> as soon as some frame delivers a
  \<open>Closed\<close> event to either window, and no exit yet (\<open>None\<close>) while no window has been
  closed.\<close>

theorem main_exit_code:
  assumes "valid_image img"
  shows "\<exists>st. main loaded img inputs =
           Some (if \<not> loaded then Some (- 1)
                 else if \<exists>inp \<in> set inputs. Closed \<in> set (birdEvents inp) \<or> Closed \<in> set (playerEvents inp)
                 then Some 0 else None, st)"
proof (cases loaded)
  case True
  have o: "birdOpen initLoop" "playerOpen initLoop" by (simp_all add: initLoop_def)
  from run_exit [OF assms initLoop_ok o, of inputs] obtain st where
    "run img initLoop inputs = Some st"
    "(birdOpen st \<and> playerOpen st) \<longleftrightarrow>
       \<not> (\<exists>inp \<in> set inputs. Closed \<in> set (birdEvents inp) \<or> Closed \<in> set (playerEvents inp))"
    by blast
  with True show ?thesis by (auto simp: main_def)
next
  case False
  then show ?thesis by (simp add: main_def)
qed

theorem main_exit_code_witness:
  "valid_image \<lparr>imgWidth = 64, imgHeight = 64, imgPixel = (\<lambda>_ _. (0::nat))\<rparr> \<and>
   (\<exists>st. main True \<lparr>imgWidth = 64, imgHeight = 64, imgPixel = (\<lambda>_ _. (0::nat))\<rparr>
          [\<lparr>birdEvents = [], playerEvents = [Closed], keysDown = \<lparr>keyW = False, keyS = False, keyA = False, keyD = False\<rparr>, mousePos = (0, 0)\<rparr>] =
        Some (Some 0, st))"
proof -
  have v: "valid_image \<lparr>imgWidth = 64, imgHeight = 64, imgPixel = (\<lambda>_ _. (0::nat))\<rparr>" by (simp add: valid_image_def)
  show ?thesis using main_exit_code [OF v, of True "[\<lparr>birdEvents = [], playerEvents = [Closed], keysDown = \<lparr>keyW = False, keyS = False, keyA = False, keyD = False\<rparr>, mousePos = (0, 0)\<rparr>]"] v
    by simp
qed
end
