(* ===== verification/Spec2Isabelle.thy ===== *)
theory Spec2Isabelle
  imports MainLoop
begin

text \<open>
  \<^bold>\<open>A verification library for the Raycaster program\<close> (\<open>src/src/main.cpp\<close>).

  \<^bold>\<open>The program.\<close> A first-person raycaster over a fixed 8\<open>\<times>\<close>8 grid with two
  windows. \<open>main\<close> opens both windows, loads the floor texture, and loops while both
  windows are open. Each frame polls both windows' events, runs \<open>handleInput\<close> (keys
  move the player, with a per-axis collision test against \<open>worldMap\<close>; the mouse
  turns it), runs \<open>castRays\<close> (one marched ray per screen column), and draws the
  bird's-eye view (\<open>renderBirdsEyeView\<close>) and the textured first-person view
  (\<open>renderPlayerView\<close>) from the distances. The components share the globals
  \<open>worldMap\<close> (read only) and the player pose (written only by \<open>handleInput\<close>).

  \<^bold>\<open>Theories\<close> (each imports the ones it calls).
  \<^item> \<open>Prelude\<close>: the C conversions the program relies on, as HOL functions:
    \<open>c_trunc\<close> (float to \<open>int\<close>, toward zero), \<open>c_div\<close> (\<open>int / int\<close>, toward zero),
    \<open>nth_opt\<close> (an unchecked read, \<open>None\<close> out of range); lemmas on them, on \<open>find\<close>
    over an index range, on \<open>those\<close>, and on 32-bit conversions; the collection
    \<open>grid_simps\<close> of evaluation rules.
  \<^item> \<open>World\<close>: the globals of lines 5--30 (\<open>worldMap\<close>, the render constants, the
    initial pose) and the cell read \<open>worldMap_at\<close> (\<open>None\<close> where C would read
    outside the array). Lemmas: every border cell is a wall, so every empty cell is
    interior, lies in \<open>[1, 7)\<close> on both axes, and a point within 0.1 of it is
    inside the array; \<open>steps_left\<close>, the marching budget.
  \<^item> \<open>RayCaster\<close>: \<open>castRays\<close> (lines 112--147). The inner \<open>while\<close> loop is the
    terminating function \<open>march\<close> over the loop state \<open>(distanceToWall, hitWall)\<close>;
    \<open>castRays\<close> maps it over the columns \<open>0 .. screenWidth - 1\<close> and collects the
    results with \<open>those\<close>. The reference \<open>rayDistance\<close> says declaratively what a ray
    returns: the first of the samples \<open>k = 1..160\<close> (at distance \<open>k/10\<close>) that leaves
    the grid (then \<open>maxDepth\<close>) or lies in a wall cell (then \<open>k/10\<close>).
  \<^item> \<open>Projector\<close>: \<open>renderPlayerView\<close> (lines 72--110) as the list of draw commands
    it issues: per column a wall slice (\<open>wallHeight\<close>, \<open>sliceTop\<close>, \<open>shade\<close>), then one
    floor point per row from \<open>floorStart\<close> down, inverse-projected with
    \<open>floorDistance\<close> along \<open>floorAngle\<close> and textured through \<open>texCoord\<close>, which
    follows the \<open>int\<close>-to-\<open>unsigned\<close> conversion of \<open>(int)(f*tex) % tex\<close> on
    \<open>32 word\<close>s; \<open>getPixel\<close> is \<open>None\<close> outside the image.
  \<^item> \<open>Input\<close>: \<open>handleInput\<close> (lines 149--210) on the record \<open>sim\<close> (the pose globals
    and the two statics of the mouse code): \<open>proposeMove\<close>, \<open>collideX\<close>,
    \<open>collideY\<close>, \<open>mouseLook\<close>; the invariant \<open>player_ok\<close> (the player stands in an
    empty cell).
  \<^item> \<open>MapView\<close>: \<open>renderBirdsEyeView\<close> (lines 32--70) as its draw commands.
  \<^item> \<open>MainLoop\<close>: \<open>main\<close> (lines 212--246): \<open>frame\<close> is one loop iteration, \<open>run\<close>
    iterates it over a finite list of frame inputs and stops as the \<open>while\<close>
    condition does, \<open>reachable\<close> (inductive) is the set of loop states a run reaches.

  \<^bold>\<open>What is proved\<close> (claim ids as in the manifest).
  \<^item> Ray caster: C1 the loop terminates, reads in range and computes \<open>rayDistance\<close>
    (refinement); C2 \<open>castRays\<close> returns \<open>screenWidth\<close> samples in \<open>[0.1, 16]\<close>; C3 a
    ray stops at its first wall sample after empty cells only; C4 a ray leaving the
    grid reports \<open>maxDepth\<close>; C5 along \<open>+x\<close> the distance is within one step past
    the true distance to the wall; C24 from any point of an empty cell every ray the
    program casts stops at a wall within 85 samples (the border of \<open>worldMap\<close> is all
    walls, a sample after an empty cell is inside the array, and the empty interior
    \<open>[1, 7)\<^sup>2\<close> has diagonal \<open>6 * sqrt 2 < 8.5\<close>), so in a reachable state no ray
    reaches \<open>maxDepth\<close>.
  \<^item> Projector: C6 slice height antitone in the distance; C7 floor rows are at least
    12 rows below the horizon (no division by zero, no guard needed); C8 floor and wall
    of a column use the same ray angle; C9--C12 texture coordinates: always inside the
    image, equal to \<open>mod 2^k\<close> for power-of-two widths, periodic for non-negative
    coordinates, but not across world coordinate 0, where texel 0 is twice as wide
    and \<open>f\<close>, \<open>f + 1\<close> sample texels 0 and \<open>tex - 1\<close> for every \<open>f\<close> in
    \<open>(-1/tex, 0)\<close>; C13 shade in
    \<open>[0, 255]\<close>, antitone; C14 the floor starts at the slice's bottom edge.
  \<^item> Input: C15 the per-axis collision rule (the \<open>y\<close> test uses the new \<open>x\<close>); C16
    no corner cutting: a diagonal step into a wall cell whose \<open>x\<close> step alone is free
    slides along \<open>x\<close> into the empty cell, for every state; C17 the
    mouse turn, zero on the first frame.
  \<^item> Map view: C18 from an empty cell each ray line ends at the point the ray
    caster stopped at, in a wall cell and at the sampled distance; C19 they use \<open>castRays\<close>'s
    angles.
  \<^item> Main loop: C20 every reachable state has the player in an empty cell and its next
    frame runs; C21 closing one window ends the loop; C22 the exit code of \<open>main\<close> for every
    input sequence: \<open>-1\<close> iff the texture failed to load, else \<open>0\<close> iff some frame
    closed a window, else still running; C23 (below) the program never reads out of
    range, for every input sequence; C25 (below) in every reachable state each ray of
    the frame stops at a wall within 8.5 units.

  \<^bold>\<open>Modelling choices.\<close> C++ \<open>float\<close> is modelled as \<open>real\<close>: the theorems are about the
  algorithm in exact arithmetic, and rounding of \<open>float\<close> (for instance, the sum of
  160 steps of \<open>0.1f\<close> is not exactly 16) is not modelled. \<open>cos\<close> and \<open>sin\<close> are the
  real functions. Out-of-range reads, which are undefined behaviour in C, are \<open>None\<close>;
  the float-to-\<open>int\<close> conversion is modelled without its overflow case, which the
  program's values (at most \<open>4000\<close>, or the texture size times a coordinate bounded by
  the theorems' hypotheses) do not reach. A texture of width or height 0 (a \<open>%\<close> by 0)
  is excluded by \<open>valid_image\<close>. The step 0.1 gives at most 160 iterations per ray:
  that bound is the termination measure \<open>steps_left\<close>; no fuel is used. The main loop
  is modelled over finite input sequences; a run that never closes a window is the
  limit of its prefixes, each of which the theorems cover.

  \<^bold>\<open>Not modelled.\<close> Window creation, event polling, drawing, \<open>copyToImage\<close> and
  image loading (SFML) are external: the model records what the program computes and
  passes to them, not what SFML does with it. \<open>setMouseCursorVisible\<close> has no effect on
  the program state.
\<close>

text \<open>C23: the whole program never performs an out-of-range read (of \<open>worldMap\<close>,
  \<open>distances\<close> or the floor image): for a floor texture of a size \<open>unsigned int\<close> and
  \<open>int\<close> both hold and for every finite sequence of frame inputs (window events, keys,
  pointer positions), \<open>main\<close> runs every frame it reaches.\<close>

theorem main_never_fails:
  assumes "valid_image img"
  shows "\<exists>r. main True img inputs = Some r"
  using run_Some [OF assms initLoop_ok, of inputs] by (auto simp: main_def)

theorem main_never_fails_witness:
  "valid_image \<lparr>imgWidth = 64, imgHeight = 64, imgPixel = (\<lambda>_ _. (0::nat))\<rparr> \<and>
   (\<exists>r. main True \<lparr>imgWidth = 64, imgHeight = 64, imgPixel = (\<lambda>_ _. (0::nat))\<rparr> [] = Some r)"
proof -
  have v: "valid_image \<lparr>imgWidth = 64, imgHeight = 64, imgPixel = (\<lambda>_ _. (0::nat))\<rparr>" by (simp add: valid_image_def)
  show ?thesis using main_never_fails [OF v, of "[]"] v by blast
qed

text \<open>C25: in every state the main loop reaches (with a valid texture), the frame's
  \<open>castRays\<close> returns one distance per column, each between 0.1 and 8.5: every ray
  of every frame stops at a wall cell, none reaches \<open>maxDepth\<close>. This joins the
  movement invariant (the player stays in an empty cell) with the ray caster's
  geometry.\<close>

theorem reachable_rays_hit_walls:
  assumes "reachable img st" "valid_image img"
  shows "\<exists>ds. castRays (playerX (game st)) (playerY (game st)) (playerAngle (game st)) = Some ds \<and>
              length ds = nat screenWidth \<and> (\<forall>d \<in> set ds. 0.1 \<le> d \<and> d \<le> 8.5)"
proof -
  have start: "worldMap_at (c_trunc (playerX (game st))) (c_trunc (playerY (game st))) = Some 0"
    using reachable_player_ok [OF assms] by (simp add: player_ok_def)
  have "0.1 \<le> rayDistance (playerX (game st)) (playerY (game st)) (cos a) (sin a) \<and>
        rayDistance (playerX (game st)) (playerY (game st)) (cos a) (sin a) \<le> 8.5" for a
    using rayDistance_from_empty_cell [OF start sin_cos_squared_add2, of a] by auto
  then show ?thesis by (auto simp: castRays_eq screenWidth_def)
qed

theorem reachable_rays_hit_walls_witness:
  "reachable \<lparr>imgWidth = 64, imgHeight = 64, imgPixel = (\<lambda>_ _. (0::nat))\<rparr> initLoop \<and>
   valid_image \<lparr>imgWidth = 64, imgHeight = 64, imgPixel = (\<lambda>_ _. (0::nat))\<rparr> \<and>
   (\<exists>ds. castRays 2 2 0 = Some ds \<and> length ds = 800 \<and> (\<forall>d \<in> set ds. 0.1 \<le> d \<and> d \<le> 8.5))"
proof -
  have r: "reachable \<lparr>imgWidth = 64, imgHeight = 64, imgPixel = (\<lambda>_ _. (0::nat))\<rparr> initLoop"
    by (rule reachable.init)
  have v: "valid_image \<lparr>imgWidth = 64, imgHeight = 64, imgPixel = (\<lambda>_ _. (0::nat))\<rparr>"
    by (simp add: valid_image_def)
  show ?thesis using reachable_rays_hit_walls [OF r v] r v
    by (simp add: initLoop_def initSim_def playerX0_def playerY0_def playerAngle0_def screenWidth_def)
qed

end
